theory Spec2Isabelle
  imports Main "HOL-Library.AList"
begin

section \<open>Token codec (apps/sfu/src/token.ts)\<close>

text \<open>
  The codec rests on three services of the JavaScript runtime that are not part of the
  repository: HMAC-SHA256 under the process secret, the base64 conversion of
  \<open>Buffer\<close>, and \<open>JSON.stringify\<close>/\<open>JSON.parse\<close>. They are parameters of the model,
  collected in the record \<open>runtime\<close>; everything the repository itself writes
  (the URL-safe wrappers, the splitting of the token, the order of the checks, the
  nonce table) is defined below from the source.

  Strings are \<open>string\<close>, buffers are lists of bytes, and the numbers \<open>iat\<close>, \<open>exp\<close>
  and \<open>now\<close> are seconds since the epoch, modelled as \<open>int\<close>.
\<close>

type_synonym bytes = "nat list"

text \<open>
  A value read from a parsed JSON object, whose type nothing guarantees. \<open>JObj\<close> is any
  plain object: the code only tests such a value for truthiness or passes it on to the
  media engine.
\<close>

datatype jv = JUndefined | JNull | JBool bool | JNum int | JStr string | JObj

text \<open>\<open>!v\<close> is false exactly for the truthy values.\<close>

fun truthy :: "jv \<Rightarrow> bool" where
  "truthy JUndefined = False"
| "truthy JNull = False"
| "truthy (JBool b) = b"
| "truthy (JNum n) = (n \<noteq> 0)"
| "truthy (JStr s) = (s \<noteq> [])"
| "truthy JObj = True"

fun is_string :: "jv \<Rightarrow> bool" where
  "is_string (JStr s) = True"
| "is_string _ = False"

fun is_number :: "jv \<Rightarrow> bool" where
  "is_number (JNum n) = True"
| "is_number _ = False"

fun num_of :: "jv \<Rightarrow> int" where
  "num_of (JNum n) = n"
| "num_of _ = 0"

record TokenPayload =
  roomId :: string
  peerId :: string
  sessionId :: "string option"
  jti :: string
  iat :: int
  exp :: int

text \<open>The parsed payload, before any of its fields has been checked.\<close>

record RawPayload =
  rRoomId :: jv
  rPeerId :: jv
  rSessionId :: jv
  rJti :: jv
  rIat :: jv
  rExp :: jv

definition raw_of :: "TokenPayload \<Rightarrow> RawPayload" where
  "raw_of p =
     \<lparr> rRoomId = JStr (roomId p), rPeerId = JStr (peerId p),
       rSessionId = (case sessionId p of None \<Rightarrow> JUndefined | Some s \<Rightarrow> JStr s),
       rJti = JStr (jti p), rIat = JNum (iat p), rExp = JNum (exp p) \<rparr>"

record runtime =
  hmac_sha256 :: "string \<Rightarrow> bytes"
  to_base64 :: "bytes \<Rightarrow> string"
  from_base64 :: "string \<Rightarrow> bytes"
  json_stringify :: "TokenPayload \<Rightarrow> bytes"
  json_parse :: "bytes \<Rightarrow> string + RawPayload"

text \<open>
  \<open>hmac_sha256 rt s\<close> is \<open>crypto.createHmac("sha256", SECRET).update(s).digest()\<close>;
  \<open>to_base64\<close> is \<open>buf.toString("base64")\<close> and \<open>from_base64\<close> is
  \<open>Buffer.from(s, "base64")\<close>; \<open>json_stringify rt p\<close> is the UTF-8 buffer of
  \<open>JSON.stringify(p)\<close>, and \<open>json_parse rt b\<close> is \<open>JSON.parse\<close> of the UTF-8 text of
  \<open>b\<close>, \<open>Inl m\<close> when it throws with message \<open>m\<close>.
\<close>

definition replace_all :: "char \<Rightarrow> char \<Rightarrow> string \<Rightarrow> string" where
  "replace_all a b s = map (\<lambda>c. if c = a then b else c) s"

definition remove_all :: "char \<Rightarrow> string \<Rightarrow> string" where
  "remove_all a s = filter (\<lambda>c. c \<noteq> a) s"

definition base64urlEncode :: "runtime \<Rightarrow> bytes \<Rightarrow> string" where
  "base64urlEncode rt buf =
     replace_all CHR ''/'' CHR ''_''
       (replace_all CHR ''+'' CHR ''-'' (remove_all CHR ''='' (to_base64 rt buf)))"

definition base64urlDecodeToBuffer :: "runtime \<Rightarrow> string \<Rightarrow> bytes" where
  "base64urlDecodeToBuffer rt s0 =
     (let s = replace_all CHR ''_'' CHR ''/'' (replace_all CHR ''-'' CHR ''+'' s0);
          pad = length s mod 4
      in from_base64 rt (if pad \<noteq> 0 then s @ replicate (4 - pad) CHR ''='' else s))"

text \<open>\<open>s.split(d)\<close> for a one-character separator: the empty string gives one empty part.\<close>

fun split_on :: "char \<Rightarrow> string \<Rightarrow> string list" where
  "split_on d [] = [[]]"
| "split_on d (c # cs) =
     (if c = d then [] # split_on d cs
      else (case split_on d cs of [] \<Rightarrow> [[c]] | p # ps \<Rightarrow> (c # p) # ps))"

datatype token_error =
    bad_format | bad_sig_len | bad_sig | parse_error string
  | no_roomId | no_peerId | no_jti | no_iat | no_exp
  | expired | iat_in_future
  | roomId_mismatch | peerId_mismatch | sessionId_mismatch
  | replayed

fun message :: "token_error \<Rightarrow> string" where
  "message bad_format = ''bad_format''"
| "message bad_sig_len = ''bad_sig_len''"
| "message bad_sig = ''bad_sig''"
| "message (parse_error m) = m"
| "message no_roomId = ''no_roomId''"
| "message no_peerId = ''no_peerId''"
| "message no_jti = ''no_jti''"
| "message no_iat = ''no_iat''"
| "message no_exp = ''no_exp''"
| "message expired = ''expired''"
| "message iat_in_future = ''iat_in_future''"
| "message roomId_mismatch = ''roomId_mismatch''"
| "message peerId_mismatch = ''peerId_mismatch''"
| "message sessionId_mismatch = ''sessionId_mismatch''"
| "message replayed = ''replayed''"

text \<open>
  \<open>usedJti\<close>: a \<open>Map\<close> from \<open>jti\<close> to \<open>exp\<close>. Its iteration order is never observed
  (the only loop over it deletes every entry that has expired), so it is a partial
  function.
\<close>

type_synonym jti_table = "string \<rightharpoonup> int"

definition cleanupUsedJti :: "int \<Rightarrow> jti_table \<Rightarrow> jti_table" where
  "cleanupUsedJti nowSec usedJti =
     (\<lambda>j. case usedJti j of None \<Rightarrow> None | Some e \<Rightarrow> if e \<le> nowSec then None else Some e)"

record verify_opts =
  consumeJti :: bool
  expectedRoomId :: "string option"
  expectedPeerId :: "string option"
  expectedSessionId :: "string option"
  nowSec :: "int option"

text \<open>An option that is absent or the empty string is falsy and switches its check off.\<close>

fun given :: "string option \<Rightarrow> bool" where
  "given None = False"
| "given (Some s) = (s \<noteq> [])"

definition no_opts :: verify_opts where
  "no_opts = \<lparr> consumeJti = False, expectedRoomId = None, expectedPeerId = None,
               expectedSessionId = None, nowSec = None \<rparr>"

fun str_of :: "jv \<Rightarrow> string" where
  "str_of (JStr s) = s"
| "str_of _ = []"

text \<open>
  The body of \<open>verifyToken\<close> is written in two parts. \<open>open_token\<close> is its first half:
  the split at the dot, the signature check and the parsing of the payload.
\<close>

definition open_token :: "runtime \<Rightarrow> string \<Rightarrow> token_error + RawPayload" where
  "open_token rt token =
     (case split_on CHR ''.'' token of
        [payloadB64, sigB64] \<Rightarrow>
          (let expectedSig = hmac_sha256 rt payloadB64;
               gotSig = base64urlDecodeToBuffer rt sigB64
           in if length gotSig \<noteq> length expectedSig then Inl bad_sig_len
              else if gotSig \<noteq> expectedSig then Inl bad_sig
              else (case json_parse rt (base64urlDecodeToBuffer rt payloadB64) of
                      Inl m \<Rightarrow> Inl (parse_error m)
                    | Inr payload \<Rightarrow> Inr payload))
      | _ \<Rightarrow> Inl bad_format)"

text \<open>
  \<open>check_payload\<close> is the second half: the field checks, the time checks, the optional
  bindings and the nonce table, in the order of the source. The table is touched only
  when every earlier check has passed: first the reaping of the expired nonces, then the
  replay check and the recording of the nonce under the token's \<open>exp\<close>.
\<close>

definition check_payload ::
  "int \<Rightarrow> verify_opts \<Rightarrow> jti_table \<Rightarrow> RawPayload \<Rightarrow> (token_error + RawPayload) \<times> jti_table" where
  "check_payload now opts usedJti payload =
     (if \<not> truthy (rRoomId payload) \<or> \<not> is_string (rRoomId payload) then (Inl no_roomId, usedJti)
      else if \<not> truthy (rPeerId payload) \<or> \<not> is_string (rPeerId payload) then (Inl no_peerId, usedJti)
      else if \<not> truthy (rJti payload) \<or> \<not> is_string (rJti payload) then (Inl no_jti, usedJti)
      else if \<not> truthy (rIat payload) \<or> \<not> is_number (rIat payload) then (Inl no_iat, usedJti)
      else if \<not> truthy (rExp payload) \<or> \<not> is_number (rExp payload) then (Inl no_exp, usedJti)
      else if num_of (rExp payload) \<le> now then (Inl expired, usedJti)
      else if num_of (rIat payload) > now + 30 then (Inl iat_in_future, usedJti)
      else if given (expectedRoomId opts) \<and> Some (rRoomId payload) \<noteq> map_option JStr (expectedRoomId opts)
        then (Inl roomId_mismatch, usedJti)
      else if given (expectedPeerId opts) \<and> Some (rPeerId payload) \<noteq> map_option JStr (expectedPeerId opts)
        then (Inl peerId_mismatch, usedJti)
      else if given (expectedSessionId opts) \<and>
              Some (if truthy (rSessionId payload) then rSessionId payload else JStr [])
                \<noteq> map_option JStr (expectedSessionId opts)
        then (Inl sessionId_mismatch, usedJti)
      else
        (let cleaned = cleanupUsedJti now usedJti in
         if consumeJti opts then
           (if cleaned (str_of (rJti payload)) \<noteq> None then (Inl replayed, cleaned)
            else (Inr payload, cleaned(str_of (rJti payload) \<mapsto> num_of (rExp payload))))
         else (Inr payload, cleaned)))"

text \<open>
  \<open>clock\<close> is \<open>Math.floor(Date.now() / 1000)\<close> at the call; \<open>opts.nowSec\<close> replaces
  it when given.
\<close>

definition now_of :: "int \<Rightarrow> verify_opts \<Rightarrow> int" where
  "now_of clock opts = (case nowSec opts of Some n \<Rightarrow> n | None \<Rightarrow> clock)"

definition verifyToken ::
  "runtime \<Rightarrow> int \<Rightarrow> string \<Rightarrow> verify_opts \<Rightarrow> jti_table \<Rightarrow> (token_error + RawPayload) \<times> jti_table" where
  "verifyToken rt clock token opts usedJti =
     (case open_token rt token of
        Inl e \<Rightarrow> (Inl e, usedJti)
      | Inr payload \<Rightarrow> check_payload (now_of clock opts) opts usedJti payload)"

definition signToken :: "runtime \<Rightarrow> TokenPayload \<Rightarrow> string" where
  "signToken rt payload =
     (let payloadB64 = base64urlEncode rt (json_stringify rt payload);
          sig = hmac_sha256 rt payloadB64;
          sigB64 = base64urlEncode rt sig
      in payloadB64 @ ''.'' @ sigB64)"


section \<open>JavaScript strings\<close>

text \<open>
  A \<open>char\<close> stands for a code unit below 256. \<open>trim\<close> removes the white space and the
  line terminators of that range from both ends.
\<close>

definition is_space :: "char \<Rightarrow> bool" where
  "is_space c = (of_char c \<in> {9, 10, 11, 12, 13, 32, 160 :: nat})"

definition trim :: "string \<Rightarrow> string" where
  "trim s = rev (dropWhile is_space (rev (dropWhile is_space s)))"

fun digits :: "nat \<Rightarrow> string" where
  "digits n =
     (if n < 10 then [''0123456789'' ! n] else digits (n div 10) @ [''0123456789'' ! (n mod 10)])"

declare digits.simps [simp del]

text \<open>\<open>String(v)\<close>.\<close>

fun js_String :: "jv \<Rightarrow> string" where
  "js_String JUndefined = ''undefined''"
| "js_String JNull = ''null''"
| "js_String (JBool b) = (if b then ''true'' else ''false'')"
| "js_String (JNum n) = (if n < 0 then ''-'' @ digits (nat (- n)) else digits (nat n))"
| "js_String (JStr s) = s"
| "js_String JObj = ''[object Object]''"

text \<open>\<open>String(v || "")\<close>, the coercion the handlers apply to every textual field.\<close>

definition str_or_empty :: "jv \<Rightarrow> string" where
  "str_or_empty v = (if truthy v then js_String v else [])"


section \<open>Signaling server with the token gate (apps/sfu/src/server.ts)\<close>

subsection \<open>State\<close>

text \<open>
  The media engine (router, transports, producers, consumers, level observer) is not part
  of the repository. Its objects appear in the model as their identifiers, its answers to
  the awaited calls are an input of each handler (\<open>engine_reply\<close>), and the calls the
  server makes on it are recorded among the actions a handler emits. Each handler runs as
  one uninterrupted step.

  \<open>Client\<close> objects are shared between \<open>sessions\<close>, the \<open>peers\<close> map of a room and the
  pending grace timers, so they live in a store (\<open>heap\<close>) and are referred to by address.
  Every \<open>Map\<close> whose iteration order the code can observe is an association list in
  insertion order: \<open>AList.update\<close> is \<open>Map.set\<close> and \<open>AList.delete\<close> is \<open>Map.delete\<close>.
\<close>

datatype media_kind = audio | video

type_synonym ws_id = nat
type_synonym addr = nat

record Producer =
  producer_id :: string
  producer_kind :: media_kind

record Consumer =
  consumer_id :: string
  consumer_kind :: media_kind

record Client =
  c_sessionId :: string
  c_peerId :: string
  c_ws :: ws_id
  c_roomId :: "string option"
  c_send :: "string option"
  c_recv :: "string option"
  c_producers :: "(string \<times> Producer) list"
  c_consumers :: "(string \<times> Consumer) list"
  c_cleanupTimer :: bool
  c_disconnectedAt :: "int option"

text \<open>
  \<open>c_cleanupTimer\<close> tells whether a grace timer is pending for the peer. The router and
  the level observer of a room are engine handles that the model never reads.
\<close>

record RoomProducer =
  rp_peerId :: string
  rp_producer :: Producer

record Room =
  r_id :: string
  r_peers :: "(string \<times> addr) list"
  r_producers :: "(string \<times> RoomProducer) list"
  r_speaking :: "string list"

record world =
  heap :: "(addr \<times> Client) list"
  sessions :: "(string \<times> addr) list"
  rooms :: "(string \<times> Room) list"

definition empty_world :: world where
  "empty_world = \<lparr> heap = [], sessions = [], rooms = [] \<rparr>"

subsection \<open>Messages and actions\<close>

datatype data =
    DError string
  | DSession "string option" string string "string list" "(string \<times> string \<times> media_kind) list"
  | DList "(string \<times> string \<times> media_kind) list"
  | DTransport string
  | DConnected
  | DId string
  | DProducerId string
  | DPaused bool
  | DConsumer string string media_kind
  | DEmpty

text \<open>
  \<open>DSession roomId sessionId peerId existingPeers existingProducers\<close> is the answer to
  \<open>join\<close> and \<open>resumeSession\<close>; \<open>DId p\<close> is \<open>{id: p}\<close> and \<open>DProducerId p\<close> is
  \<open>{producerId: p}\<close>; \<open>DConsumer id producerId kind\<close> is the answer to \<open>consume\<close>. The
  engine's opaque parameters (\<open>rtpCapabilities\<close>, ICE and DTLS parameters,
  \<open>rtpParameters\<close>) are left out of the messages.
\<close>

datatype msg =
    Response jv bool data
  | Welcome string "string option"
  | WelcomeSession string string "string list" "(string \<times> string \<times> media_kind) list"
  | PeerJoined string
  | PeerLeft string
  | NewProducer string string media_kind
  | ProducerClosed string string media_kind
  | ProducerSpeaking string "string option" bool "int option"

datatype engine_call =
    CloseTransport string
  | CloseProducer string
  | CloseConsumer string
  | CloseObserver string
  | CloseRouter string
  | AddToObserver string string
  | ConnectTransport string
  | PauseProducer string
  | ResumeProducer string
  | PauseConsumer string
  | ResumeConsumer string

datatype action =
    Send ws_id msg
  | CloseWs ws_id "nat option" "string option"
  | Engine engine_call

text \<open>
  What the engine answers to the awaited calls of one handler; \<open>Inl m\<close> is an exception
  with message \<open>m\<close>. \<open>e_rid\<close> is the value of \<open>rid()\<close>.
\<close>

record engine_reply =
  e_room :: "string + unit"
  e_transport :: "string + string"
  e_connect :: "string + unit"
  e_produce :: "string + string"
  e_canConsume :: "string + bool"
  e_consume :: "string + Consumer"
  e_pause :: "string + unit"
  e_rid :: string

subsection \<open>Helpers of the server\<close>

definition deref :: "world \<Rightarrow> addr \<Rightarrow> Client option" where
  "deref w a = map_of (heap w) a"

definition store :: "addr \<Rightarrow> Client \<Rightarrow> world \<Rightarrow> world" where
  "store a c w = w\<lparr> heap := AList.update a c (heap w) \<rparr>"

text \<open>
  A room is mutated in place; \<open>put_room k r\<close> writes the mutated room back under the key
  \<open>k\<close> it was read from.
\<close>

definition put_room :: "string \<Rightarrow> Room \<Rightarrow> world \<Rightarrow> world" where
  "put_room k r w = w\<lparr> rooms := AList.update k r (rooms w) \<rparr>"

text \<open>The \<open>Client\<close> objects of \<open>room.peers.values()\<close>, in order.\<close>

definition members :: "world \<Rightarrow> Room \<Rightarrow> Client list" where
  "members w room =
     concat (map (\<lambda>(k, a). case deref w a of None \<Rightarrow> [] | Some c \<Rightarrow> [c]) (r_peers room))"

definition roomProducerList :: "Room \<Rightarrow> (string \<times> string \<times> media_kind) list" where
  "roomProducerList room =
     map (\<lambda>(k, v). (producer_id (rp_producer v), rp_peerId v, producer_kind (rp_producer v)))
       (r_producers room)"

definition roomPeerList :: "world \<Rightarrow> Room \<Rightarrow> string list" where
  "roomPeerList w room = map c_peerId (members w room)"

text \<open>
  \<open>broadcastRoom\<close>: one send for every member, except the members whose \<open>peerId\<close> is
  the excluded one; an excluded id that is absent or empty excludes nobody.
\<close>

definition broadcastRoom :: "world \<Rightarrow> Room \<Rightarrow> msg \<Rightarrow> string option \<Rightarrow> action list" where
  "broadcastRoom w room m excludePeerId =
     map (\<lambda>p. Send (c_ws p) m)
       (filter (\<lambda>p. \<not> (given excludePeerId \<and> Some (c_peerId p) = excludePeerId)) (members w room))"

definition broadcastPeerJoined :: "world \<Rightarrow> Room \<Rightarrow> string \<Rightarrow> action list" where
  "broadcastPeerJoined w room peer_id = broadcastRoom w room (PeerJoined peer_id) (Some peer_id)"

definition broadcastPeerLeft :: "world \<Rightarrow> Room \<Rightarrow> string \<Rightarrow> action list" where
  "broadcastPeerLeft w room peer_id = broadcastRoom w room (PeerLeft peer_id) (Some peer_id)"

definition new_room :: "string \<Rightarrow> Room" where
  "new_room rid = \<lparr> r_id = rid, r_peers = [], r_producers = [], r_speaking = [] \<rparr>"

text \<open>
  \<open>getRoom\<close>: the room of that id when there is one, else a fresh room, unless the
  engine fails to create the router or the observer.
\<close>

definition getRoom :: "world \<Rightarrow> string \<Rightarrow> engine_reply \<Rightarrow> string + (Room \<times> world)" where
  "getRoom w rid er =
     (case map_of (rooms w) rid of
        Some r \<Rightarrow> Inr (r, w)
      | None \<Rightarrow>
          (case e_room er of
             Inl m \<Rightarrow> Inl m
           | Inr _ \<Rightarrow> Inr (new_room rid, put_room rid (new_room rid) w)))"


text \<open>
  The loop of \<open>destroyPeer\<close> over \<open>room.producers.entries()\<close>: every entry owned by the
  peer id is deleted from the index; when its id is in the speaking set it is deleted
  there too and \<open>producerSpeaking false\<close> is broadcast; then \<open>producerClosed\<close> is
  broadcast. The entries are visited in the order of the index.
\<close>

fun destroyPeer_loop ::
  "world \<Rightarrow> string \<Rightarrow> (string \<times> RoomProducer) list \<Rightarrow> Room \<Rightarrow> Room \<times> action list" where
  "destroyPeer_loop w peer_id [] room = (room, [])"
| "destroyPeer_loop w peer_id ((pid, info) # rest) room =
     (if rp_peerId info \<noteq> peer_id then destroyPeer_loop w peer_id rest room
      else
        (let room1 = room\<lparr> r_producers := AList.delete pid (r_producers room) \<rparr>;
             was_speaking = (pid \<in> set (r_speaking room1));
             room2 = (if was_speaking
                      then room1\<lparr> r_speaking := removeAll pid (r_speaking room1) \<rparr> else room1);
             a1 = (if was_speaking
                   then broadcastRoom w room2 (ProducerSpeaking pid (Some peer_id) False None) None
                   else []);
             a2 = broadcastRoom w room2
                    (ProducerClosed pid peer_id (producer_kind (rp_producer info))) None;
             (room3, a3) = destroyPeer_loop w peer_id rest room2
         in (room3, a1 @ a2 @ a3)))"

text \<open>Closing everything a peer holds: its producers, its consumers, its two transports.\<close>

definition close_media :: "Client \<Rightarrow> action list" where
  "close_media peer =
     map (\<lambda>(k, p). Engine (CloseProducer (producer_id p))) (c_producers peer) @
     map (\<lambda>(k, c). Engine (CloseConsumer (consumer_id c))) (c_consumers peer) @
     (case c_send peer of None \<Rightarrow> [] | Some t \<Rightarrow> [Engine (CloseTransport t)]) @
     (case c_recv peer of None \<Rightarrow> [] | Some t \<Rightarrow> [Engine (CloseTransport t)])"

definition forget_session :: "string \<Rightarrow> world \<Rightarrow> world" where
  "forget_session sid w = w\<lparr> sessions := AList.delete sid (sessions w) \<rparr>"

definition destroyPeer :: "world \<Rightarrow> addr \<Rightarrow> world \<times> action list" where
  "destroyPeer w a =
     (case deref w a of
        None \<Rightarrow> (w, [])
      | Some peer \<Rightarrow>
          (case c_roomId peer of
             None \<Rightarrow> (forget_session (c_sessionId peer) w, [])
           | Some room_id \<Rightarrow>
               (if room_id = [] then (forget_session (c_sessionId peer) w, [])
                else
                  (case map_of (rooms w) room_id of
                     None \<Rightarrow> (forget_session (c_sessionId peer) w, [])
                   | Some room \<Rightarrow>
                       (let (room1, a1) = destroyPeer_loop w (c_peerId peer) (r_producers room) room;
                            room2 = room1\<lparr> r_peers := AList.delete (c_peerId peer) (r_peers room1) \<rparr>;
                            a2 = broadcastPeerLeft w room2 (c_peerId peer);
                            a3 = close_media peer;
                            peer' = peer\<lparr> c_producers := [], c_consumers := [], c_send := None,
                                          c_recv := None, c_roomId := None \<rparr>;
                            w1 = forget_session (c_sessionId peer)
                                   (store a peer' (put_room room_id room2 w))
                        in if r_peers room2 = []
                           then (w1\<lparr> rooms := AList.delete (r_id room2) (rooms w1) \<rparr>,
                                 a1 @ a2 @ a3 @
                                 [Engine (CloseObserver (r_id room2)), Engine (CloseRouter (r_id room2))])
                           else (w1, a1 @ a2 @ a3))))))"

text \<open>
  \<open>scheduleGraceCleanup\<close> arms the grace timer (an earlier one is cancelled), and the
  expiry of the timer runs \<open>destroyPeer\<close>. \<open>clock\<close> is \<open>Date.now()\<close>.
\<close>

definition scheduleGraceCleanup :: "world \<Rightarrow> addr \<Rightarrow> int \<Rightarrow> world" where
  "scheduleGraceCleanup w a clock =
     (case deref w a of
        None \<Rightarrow> w
      | Some peer \<Rightarrow> store a (peer\<lparr> c_cleanupTimer := True, c_disconnectedAt := Some clock \<rparr>) w)"

definition on_grace_expired :: "world \<Rightarrow> addr \<Rightarrow> world \<times> action list" where
  "on_grace_expired w a =
     (case deref w a of
        None \<Rightarrow> (w, [])
      | Some peer \<Rightarrow>
          (if c_cleanupTimer peer
           then destroyPeer (store a (peer\<lparr> c_cleanupTimer := False \<rparr>) w) a
           else (w, [])))"

text \<open>
  The loop of \<open>resetPeerMedia\<close>: as in \<open>destroyPeer\<close>, but the producer is closed and no
  \<open>producerClosed\<close> is broadcast.
\<close>

fun resetPeerMedia_loop ::
  "world \<Rightarrow> string \<Rightarrow> (string \<times> RoomProducer) list \<Rightarrow> Room \<Rightarrow> Room \<times> action list" where
  "resetPeerMedia_loop w peer_id [] room = (room, [])"
| "resetPeerMedia_loop w peer_id ((pid, info) # rest) room =
     (if rp_peerId info \<noteq> peer_id then resetPeerMedia_loop w peer_id rest room
      else
        (let room1 = room\<lparr> r_producers := AList.delete pid (r_producers room) \<rparr>;
             was_speaking = (pid \<in> set (r_speaking room1));
             room2 = (if was_speaking
                      then room1\<lparr> r_speaking := removeAll pid (r_speaking room1) \<rparr> else room1);
             a1 = (if was_speaking
                   then broadcastRoom w room2 (ProducerSpeaking pid (Some peer_id) False None) None
                   else []);
             a2 = [Engine (CloseProducer (producer_id (rp_producer info)))];
             (room3, a3) = resetPeerMedia_loop w peer_id rest room2
         in (room3, a1 @ a2 @ a3)))"

definition resetPeerMedia :: "world \<Rightarrow> addr \<Rightarrow> world \<times> action list" where
  "resetPeerMedia w a =
     (case deref w a of
        None \<Rightarrow> (w, [])
      | Some peer \<Rightarrow>
          (let (w1, a1) =
                 (case c_roomId peer of
                    None \<Rightarrow> (w, [])
                  | Some room_id \<Rightarrow>
                      (if room_id = [] then (w, [])
                       else
                         (case map_of (rooms w) room_id of
                            None \<Rightarrow> (w, [])
                          | Some room \<Rightarrow>
                              (let (room1, acts) =
                                     resetPeerMedia_loop w (c_peerId peer) (r_producers room) room
                               in (put_room room_id room1 w, acts)))));
               peer' = peer\<lparr> c_producers := [], c_consumers := [], c_send := None, c_recv := None \<rparr>
           in (store a peer' w1, a1 @ close_media peer)))"

subsection \<open>The level observer\<close>

text \<open>
  The \<open>volumes\<close> handler of the room stored under \<open>room_id\<close>; \<open>volumes\<close> lists the
  reported producers with their volumes. \<open>set_add\<close> is \<open>Set.add\<close>.
\<close>

definition set_add :: "string \<Rightarrow> string list \<Rightarrow> string list" where
  "set_add x xs = (if x \<in> set xs then xs else xs @ [x])"

definition owner_of :: "Room \<Rightarrow> string \<Rightarrow> string option" where
  "owner_of room pid = map_option rp_peerId (map_of (r_producers room) pid)"

fun volumes_loud :: "world \<Rightarrow> Room \<Rightarrow> (string \<times> int) list \<Rightarrow> action list" where
  "volumes_loud w room [] = []"
| "volumes_loud w room ((pid, volume) # rest) =
     broadcastRoom w room (ProducerSpeaking pid (owner_of room pid) True (Some volume)) None @
     volumes_loud w room rest"

fun volumes_quiet :: "world \<Rightarrow> string list \<Rightarrow> string list \<Rightarrow> Room \<Rightarrow> Room \<times> action list" where
  "volumes_quiet w active [] room = (room, [])"
| "volumes_quiet w active (pid # rest) room =
     (if pid \<notin> set active
      then (let room1 = room\<lparr> r_speaking := removeAll pid (r_speaking room) \<rparr>;
                a1 = broadcastRoom w room1 (ProducerSpeaking pid (owner_of room1 pid) False None) None;
                (room2, a2) = volumes_quiet w active rest room1
            in (room2, a1 @ a2))
      else volumes_quiet w active rest room)"

definition on_volumes :: "world \<Rightarrow> string \<Rightarrow> (string \<times> int) list \<Rightarrow> world \<times> action list" where
  "on_volumes w room_id volumes =
     (case map_of (rooms w) room_id of
        None \<Rightarrow> (w, [])
      | Some room \<Rightarrow>
          (let active = fold set_add (map fst volumes) [];
               a1 = volumes_loud w room volumes;
               (room1, a2) = volumes_quiet w active (r_speaking room) room;
               room2 = room1\<lparr> r_speaking := fold set_add active (r_speaking room1) \<rparr>
           in (put_room room_id room2 w, a1 @ a2)))"

fun silence_loop :: "world \<Rightarrow> string list \<Rightarrow> Room \<Rightarrow> Room \<times> action list" where
  "silence_loop w [] room = (room, [])"
| "silence_loop w (pid # rest) room =
     (let room1 = room\<lparr> r_speaking := removeAll pid (r_speaking room) \<rparr>;
          a1 = broadcastRoom w room1 (ProducerSpeaking pid (owner_of room1 pid) False None) None;
          (room2, a2) = silence_loop w rest room1
      in (room2, a1 @ a2))"

definition on_silence :: "world \<Rightarrow> string \<Rightarrow> world \<times> action list" where
  "on_silence w room_id =
     (case map_of (rooms w) room_id of
        None \<Rightarrow> (w, [])
      | Some room \<Rightarrow>
          (let (room1, acts) = silence_loop w (r_speaking room) room
           in (put_room room_id room1 w, acts)))"


subsection \<open>The token gate of a new connection\<close>

text \<open>
  What the server keeps on an admitted socket: the socket itself and the identity its
  token binds (\<open>_tokenRoomId\<close>, \<open>_tokenPeerId\<close>, \<open>_tokenSessionId\<close>, the last one
  empty when the token names no session).
\<close>

record conn =
  sock :: ws_id
  tokenRoomId :: string
  tokenPeerId :: string
  tokenSessionId :: string

text \<open>
  \<open>on_connection\<close> is the body of \<open>wss.on("connection")\<close> up to the welcome message.
  \<open>token\<close> is the \<open>token\<close> parameter of the query string, empty when there is none;
  \<open>clock\<close> is the wall clock in seconds.
\<close>

definition on_connection ::
  "runtime \<Rightarrow> int \<Rightarrow> ws_id \<Rightarrow> string \<Rightarrow> jti_table \<Rightarrow> conn option \<times> jti_table \<times> action list" where
  "on_connection rt clock ws token usedJti =
     (if token = [] then (None, usedJti, [CloseWs ws (Some 1008) (Some ''missing token'')])
      else
        (case verifyToken rt clock token (no_opts\<lparr> consumeJti := True \<rparr>) usedJti of
           (Inl e, used1) \<Rightarrow>
             (None, used1,
              [CloseWs ws (Some 1008)
                 (Some (''invalid token: '' @ (if message e = [] then ''unknown'' else message e)))])
         | (Inr tokenPayload, used1) \<Rightarrow>
             (if \<not> truthy (rRoomId tokenPayload)
              then (None, used1, [CloseWs ws (Some 1008) (Some ''invalid token: no_roomId'')])
              else if \<not> truthy (rPeerId tokenPayload)
              then (None, used1, [CloseWs ws (Some 1008) (Some ''invalid token: no_peerId'')])
              else
                (let room_id = trim (str_or_empty (rRoomId tokenPayload));
                     peer_id = trim (str_or_empty (rPeerId tokenPayload));
                     session_id = (if truthy (rSessionId tokenPayload)
                                   then trim (js_String (rSessionId tokenPayload)) else [])
                 in if room_id = []
                    then (None, used1, [CloseWs ws (Some 1008) (Some ''invalid token: no_roomId'')])
                    else if peer_id = []
                    then (None, used1, [CloseWs ws (Some 1008) (Some ''invalid token: no_peerId'')])
                    else (Some \<lparr> sock = ws, tokenRoomId = room_id, tokenPeerId = peer_id,
                                 tokenSessionId = session_id \<rparr>,
                          used1,
                          [Send ws (Welcome peer_id
                                      (if session_id = [] then None else Some session_id))])))))"

subsection \<open>The request dispatcher\<close>

record payload =
  q_roomId :: jv
  q_sessionId :: jv
  q_direction :: jv
  q_dtlsParameters :: jv
  q_kind :: jv
  q_rtpParameters :: jv
  q_appData :: jv
  q_producerId :: jv
  q_rtpCapabilities :: jv
  q_consumerId :: jv

text \<open>
  The parsed message \<open>{type, requestId, payload}\<close>; a field the client left out is
  \<open>JUndefined\<close>, and so is every field of a payload that is itself missing.
\<close>

record request =
  q_type :: jv
  q_requestId :: jv
  q_payload :: payload

text \<open>
  A handler ends in one of two ways: it throws (\<open>Inl\<close> the message of the exception) or
  it returns. Either way it leaves a world behind and the actions it has emitted so far.
\<close>

type_synonym 'a outcome = "(string + 'a) \<times> world \<times> action list"

definition requireRoomIdMatch :: "conn \<Rightarrow> string \<Rightarrow> string + string" where
  "requireRoomIdMatch c roomIdFromMsg =
     (let authedRoomId = trim (tokenRoomId c) in
      if authedRoomId = [] then Inl ''not_authed''
      else (let r = trim roomIdFromMsg in
            if r = [] then Inl ''roomId required''
            else if r \<noteq> authedRoomId then Inl ''roomId mismatch''
            else Inr r))"

definition requireBoundIdentity :: "conn \<Rightarrow> string \<Rightarrow> string \<Rightarrow> string + (string \<times> string)" where
  "requireBoundIdentity c msgSessionId random_id =
     (let authedPeerId = trim (tokenPeerId c);
          authedSessionId = trim (tokenSessionId c)
      in if authedPeerId = [] then Inl ''not_authed''
         else (let s = trim msgSessionId in
               if authedSessionId \<noteq> [] then
                 (if s = [] then Inl ''sessionId required (token-bound)''
                  else if s \<noteq> authedSessionId then Inl ''sessionId mismatch (token-bound)''
                  else Inr (authedPeerId, authedSessionId))
               else Inr (authedPeerId, if s \<noteq> [] then s else ''s_'' @ random_id)))"

definition fresh_addr :: "world \<Rightarrow> addr" where
  "fresh_addr w = Suc (fold max (map fst (heap w)) 0)"

text \<open>\<open>sessions.get(sid)\<close>, with the address of the object found.\<close>

definition find_session :: "world \<Rightarrow> string \<Rightarrow> (addr \<times> Client) option" where
  "find_session w sid =
     (case map_of (sessions w) sid of
        None \<Rightarrow> None
      | Some a \<Rightarrow> (case deref w a of None \<Rightarrow> None | Some peer \<Rightarrow> Some (a, peer)))"

text \<open>
  The part that \<open>join\<close> and \<open>resumeSession\<close> have in common: a new peer record when the
  session is unknown, else the adoption of the existing one (the bound peer id must be
  the record's; the grace timer is cancelled; the media of the peer is reset; the
  earlier socket, when it is another one, is closed; the socket is replaced).
\<close>

definition adopt :: "world \<Rightarrow> conn \<Rightarrow> string \<Rightarrow> string \<Rightarrow> addr outcome" where
  "adopt w c session_id peer_id =
     (case find_session w session_id of
        None \<Rightarrow>
          (let a = fresh_addr w;
               peer = \<lparr> c_sessionId = session_id, c_peerId = peer_id, c_ws = sock c,
                        c_roomId = None, c_send = None, c_recv = None, c_producers = [],
                        c_consumers = [], c_cleanupTimer = False, c_disconnectedAt = None \<rparr>
           in (Inr a, (store a peer w)\<lparr> sessions := AList.update session_id a (sessions w) \<rparr>, []))
      | Some (a, peer) \<Rightarrow>
          (if c_peerId peer \<noteq> peer_id then (Inl ''peerId mismatch (session bound)'', w, [])
           else
             (let w1 = store a (peer\<lparr> c_cleanupTimer := False, c_disconnectedAt := None \<rparr>) w;
                  (w2, a2) = resetPeerMedia w1 a
              in (case deref w2 a of
                    None \<Rightarrow> (Inr a, w2, a2)
                  | Some peer2 \<Rightarrow>
                      (Inr a, store a (peer2\<lparr> c_ws := sock c \<rparr>) w2,
                       a2 @ (if c_ws peer2 \<noteq> sock c then [CloseWs (c_ws peer2) None None] else []))))))"

definition session_data :: "world \<Rightarrow> Room option \<Rightarrow> string list \<times> (string \<times> string \<times> media_kind) list" where
  "session_data w room =
     (case room of None \<Rightarrow> ([], []) | Some r \<Rightarrow> (roomPeerList w r, roomProducerList r))"

text \<open>
  \<open>peer.roomId = roomId; room = await getRoom(roomId); room.peers.set(peer.peerId, peer)\<close>:
  the three statements by which a peer enters its room. When the engine fails to create
  the room the peer keeps the room id it was given.
\<close>

definition enter_room :: "world \<Rightarrow> addr \<Rightarrow> Client \<Rightarrow> string \<Rightarrow> engine_reply \<Rightarrow> Room outcome" where
  "enter_room w a peer room_id er =
     (let w2 = store a (peer\<lparr> c_roomId := Some room_id \<rparr>) w in
      case getRoom w2 room_id er of
        Inl e \<Rightarrow> (Inl e, w2, [])
      | Inr (room, w3) \<Rightarrow>
          (let room1 = room\<lparr> r_peers := AList.update (c_peerId peer) a (r_peers room) \<rparr>
           in (Inr room1, put_room room_id room1 w3, [])))"

definition resumeSession :: "world \<Rightarrow> conn \<Rightarrow> request \<Rightarrow> engine_reply \<Rightarrow> unit outcome" where
  "resumeSession w c req er =
     (case requireRoomIdMatch c (str_or_empty (q_roomId (q_payload req))) of
        Inl e \<Rightarrow> (Inl e, w, [])
      | Inr room_id \<Rightarrow>
     (case requireBoundIdentity c (str_or_empty (q_sessionId (q_payload req))) (e_rid er) of
        Inl e \<Rightarrow> (Inl e, w, [])
      | Inr (peer_id, session_id) \<Rightarrow>
     (case adopt w c session_id peer_id of
        (Inl e, w1, a1) \<Rightarrow> (Inl e, w1, a1)
      | (Inr a, w1, a1) \<Rightarrow>
     (case deref w1 a of
        None \<Rightarrow> (Inl ''peer not found'', w1, a1)
      | Some peer \<Rightarrow>
          (if given (c_roomId peer) \<and> c_roomId peer \<noteq> Some room_id
           then (Inl ''roomId mismatch'', w1, a1)
           else
             (case (if \<not> given (c_roomId peer)
                    then (case enter_room w1 a peer room_id er of
                            (Inl e, w2, a2) \<Rightarrow> (Inl e, w2, a2)
                          | (Inr room1, w2, a2) \<Rightarrow>
                              (Inr (), w2, a2 @ broadcastPeerJoined w2 room1 (c_peerId peer)))
                    else (Inr (), w1, [])) of
                (Inl e, w5, a5) \<Rightarrow> (Inl e, w5, a1 @ a5)
              | (Inr _, w5, a5) \<Rightarrow>
                  (case deref w5 a of
                     None \<Rightarrow> (Inl ''peer not found'', w5, a1 @ a5)
                   | Some peer5 \<Rightarrow>
                       (let room = (case c_roomId peer5 of None \<Rightarrow> None
                                    | Some k \<Rightarrow> map_of (rooms w5) k);
                            (ps, prods) = session_data w5 room
                        in (Inr (), w5,
                            a1 @ a5 @
                            [Send (sock c) (Response (q_requestId req) True
                               (DSession (c_roomId peer5) (c_sessionId peer5) (c_peerId peer5) ps prods)),
                             Send (sock c) (WelcomeSession (c_sessionId peer5) (c_peerId peer5) ps prods)])))))))))"

definition join :: "world \<Rightarrow> conn \<Rightarrow> request \<Rightarrow> engine_reply \<Rightarrow> unit outcome" where
  "join w c req er =
     (case requireRoomIdMatch c (str_or_empty (q_roomId (q_payload req))) of
        Inl e \<Rightarrow> (Inl e, w, [])
      | Inr room_id \<Rightarrow>
     (case requireBoundIdentity c (str_or_empty (q_sessionId (q_payload req))) (e_rid er) of
        Inl e \<Rightarrow> (Inl e, w, [])
      | Inr (peer_id, session_id) \<Rightarrow>
     (case adopt w c session_id peer_id of
        (Inl e, w1, a1) \<Rightarrow> (Inl e, w1, a1)
      | (Inr a, w1, a1) \<Rightarrow>
     (case deref w1 a of
        None \<Rightarrow> (Inl ''peer not found'', w1, a1)
      | Some peer \<Rightarrow>
          (if given (c_roomId peer) \<and> c_roomId peer \<noteq> Some room_id
           then (Inl ''roomId mismatch'', w1, a1)
           else
             (case enter_room w1 a peer room_id er of
                (Inl e, w2, a2) \<Rightarrow> (Inl e, w2, a1 @ a2)
              | (Inr room1, w2, a2) \<Rightarrow>
                  (let ps = roomPeerList w2 room1;
                       prods = roomProducerList room1
                   in (Inr (), w2,
                       a1 @ a2 @
                       [Send (sock c) (Response (q_requestId req) True
                          (DSession (Some (r_id room1)) (c_sessionId peer) (c_peerId peer) ps prods)),
                        Send (sock c) (WelcomeSession (c_sessionId peer) (c_peerId peer) ps prods)] @
                       broadcastPeerJoined w2 room1 (c_peerId peer)))))))))"


definition listProducers :: "world \<Rightarrow> conn \<Rightarrow> request \<Rightarrow> unit outcome" where
  "listProducers w c req =
     (let session_id = trim (str_or_empty (q_sessionId (q_payload req)));
          peer = (if session_id \<noteq> [] then map_option snd (find_session w session_id) else None);
          checked =
            (if truthy (q_roomId (q_payload req))
             then requireRoomIdMatch c (js_String (q_roomId (q_payload req)))
             else (case peer of
                     None \<Rightarrow> Inr []
                   | Some p \<Rightarrow>
                       (case c_roomId p of
                          None \<Rightarrow> Inr []
                        | Some k \<Rightarrow> if k = [] then Inr [] else requireRoomIdMatch c k)))
      in case checked of
           Inl e \<Rightarrow> (Inl e, w, [])
         | Inr room_id \<Rightarrow>
             (if room_id = [] then (Inl ''room not found'', w, [])
              else (case map_of (rooms w) room_id of
                      None \<Rightarrow> (Inl ''room not found'', w, [])
                    | Some room \<Rightarrow>
                        (Inr (), w,
                         [Send (sock c) (Response (q_requestId req) True (DList (roomProducerList room)))]))))"

text \<open>
  The handlers below run on the peer that \<open>payload.sessionId\<close> names; \<open>a\<close> is its
  address and \<open>peer\<close> its record.
\<close>

definition createTransport ::
  "world \<Rightarrow> conn \<Rightarrow> request \<Rightarrow> engine_reply \<Rightarrow> addr \<Rightarrow> Client \<Rightarrow> unit outcome" where
  "createTransport w c req er a peer =
     (let direction = trim (str_or_empty (q_direction (q_payload req))) in
      if direction \<noteq> ''send'' \<and> direction \<noteq> ''recv'' then (Inl ''invalid direction'', w, [])
      else if \<not> given (c_roomId peer) then (Inl ''room not joined'', w, [])
      else
        (case map_of (rooms w) (the (c_roomId peer)) of
           None \<Rightarrow> (Inl ''room not found'', w, [])
         | Some room \<Rightarrow>
             (case e_transport er of
                Inl m \<Rightarrow> (Inl m, w, [])
              | Inr transport \<Rightarrow>
                  (Inr (),
                   store a (if direction = ''send'' then peer\<lparr> c_send := Some transport \<rparr>
                            else peer\<lparr> c_recv := Some transport \<rparr>) w,
                   [Send (sock c) (Response (q_requestId req) True (DTransport transport))]))))"

definition connectTransport ::
  "world \<Rightarrow> conn \<Rightarrow> request \<Rightarrow> engine_reply \<Rightarrow> addr \<Rightarrow> Client \<Rightarrow> unit outcome" where
  "connectTransport w c req er a peer =
     (let direction = trim (str_or_empty (q_direction (q_payload req))) in
      if \<not> truthy (q_dtlsParameters (q_payload req)) then (Inl ''missing dtlsParameters'', w, [])
      else
        (case (if direction = ''send'' then c_send peer
               else if direction = ''recv'' then c_recv peer else None) of
           None \<Rightarrow> (Inl (direction @ '' transport not created''), w, [])
         | Some t \<Rightarrow>
             (case e_connect er of
                Inl m \<Rightarrow> (Inl m, w, [Engine (ConnectTransport t)])
              | Inr _ \<Rightarrow>
                  (Inr (), w,
                   [Engine (ConnectTransport t),
                    Send (sock c) (Response (q_requestId req) True DConnected)]))))"

definition produce ::
  "world \<Rightarrow> conn \<Rightarrow> request \<Rightarrow> engine_reply \<Rightarrow> addr \<Rightarrow> Client \<Rightarrow> unit outcome" where
  "produce w c req er a peer =
     (let kind = trim (str_or_empty (q_kind (q_payload req))) in
      if kind \<noteq> ''audio'' \<and> kind \<noteq> ''video'' then (Inl ''invalid kind'', w, [])
      else if c_send peer = None then (Inl ''send transport not ready'', w, [])
      else if \<not> truthy (q_rtpParameters (q_payload req)) then (Inl ''missing rtpParameters'', w, [])
      else
        (case e_produce er of
           Inl m \<Rightarrow> (Inl m, w, [])
         | Inr new_id \<Rightarrow>
             (let producer = \<lparr> producer_id = new_id,
                               producer_kind = (if kind = ''audio'' then audio else video) \<rparr>;
                  w1 = store a (peer\<lparr> c_producers := AList.update new_id producer (c_producers peer) \<rparr>) w;
                  w2 = (case c_roomId peer of
                          None \<Rightarrow> w1
                        | Some k \<Rightarrow>
                            (if k = [] then w1
                             else (case map_of (rooms w1) k of
                                     None \<Rightarrow> w1
                                   | Some room \<Rightarrow>
                                       put_room k
                                         (room\<lparr> r_producers :=
                                            AList.update new_id
                                              \<lparr> rp_peerId = c_peerId peer, rp_producer = producer \<rparr>
                                              (r_producers room) \<rparr>) w1)))
              in (Inr (), w2, [Send (sock c) (Response (q_requestId req) True (DId new_id))]))))"

definition pauseProducer ::
  "world \<Rightarrow> conn \<Rightarrow> request \<Rightarrow> engine_reply \<Rightarrow> addr \<Rightarrow> Client \<Rightarrow> unit outcome" where
  "pauseProducer w c req er a peer =
     (let producerId = trim (str_or_empty (q_producerId (q_payload req))) in
      if producerId = [] then (Inl ''missing producerId'', w, [])
      else
        (case map_of (c_producers peer) producerId of
           None \<Rightarrow> (Inl ''producer not found'', w, [])
         | Some producer \<Rightarrow>
             (case e_pause er of
                Inl m \<Rightarrow> (Inl m, w, [Engine (PauseProducer (producer_id producer))])
              | Inr _ \<Rightarrow>
                  (Inr (), w,
                   [Engine (PauseProducer (producer_id producer)),
                    Send (sock c) (Response (q_requestId req) True (DPaused True))]))))"

definition resumeProducer ::
  "world \<Rightarrow> conn \<Rightarrow> request \<Rightarrow> engine_reply \<Rightarrow> addr \<Rightarrow> Client \<Rightarrow> unit outcome" where
  "resumeProducer w c req er a peer =
     (let producerId = trim (str_or_empty (q_producerId (q_payload req))) in
      if producerId = [] then (Inl ''missing producerId'', w, [])
      else
        (case map_of (c_producers peer) producerId of
           None \<Rightarrow> (Inl ''producer not found'', w, [])
         | Some producer \<Rightarrow>
             (case e_pause er of
                Inl m \<Rightarrow> (Inl m, w, [Engine (ResumeProducer (producer_id producer))])
              | Inr _ \<Rightarrow>
                  (Inr (), w,
                   [Engine (ResumeProducer (producer_id producer)),
                    Send (sock c) (Response (q_requestId req) True (DPaused False))]))))"

definition consume ::
  "world \<Rightarrow> conn \<Rightarrow> request \<Rightarrow> engine_reply \<Rightarrow> addr \<Rightarrow> Client \<Rightarrow> unit outcome" where
  "consume w c req er a peer =
     (let producerId = trim (str_or_empty (q_producerId (q_payload req))) in
      if producerId = [] then (Inl ''missing producerId'', w, [])
      else if c_recv peer = None then (Inl ''recv transport not ready'', w, [])
      else if \<not> given (c_roomId peer) then (Inl ''room not joined'', w, [])
      else
        (case map_of (rooms w) (the (c_roomId peer)) of
           None \<Rightarrow> (Inl ''room not found'', w, [])
         | Some room \<Rightarrow>
             (if \<not> truthy (q_rtpCapabilities (q_payload req))
              then (Inl ''missing rtpCapabilities'', w, [])
              else
                (case map_of (r_producers room) producerId of
                   None \<Rightarrow> (Inl ''producer not found'', w, [])
                 | Some rec \<Rightarrow>
                     (if rp_peerId rec = c_peerId peer then (Inl ''cannot consume self'', w, [])
                      else
                        (case e_canConsume er of
                           Inl m \<Rightarrow> (Inl m, w, [])
                         | Inr can \<Rightarrow>
                             (if \<not> can then (Inl ''cannot consume (rtpCapabilities)'', w, [])
                              else
                                (case e_consume er of
                                   Inl m \<Rightarrow> (Inl m, w, [])
                                 | Inr consumer \<Rightarrow>
                                     (Inr (),
                                      store a (peer\<lparr> c_consumers :=
                                                 AList.update (consumer_id consumer) consumer
                                                   (c_consumers peer) \<rparr>) w,
                                      [Send (sock c) (Response (q_requestId req) True
                                         (DConsumer (consumer_id consumer) producerId
                                            (consumer_kind consumer)))])))))))))"

definition pauseConsumer ::
  "world \<Rightarrow> conn \<Rightarrow> request \<Rightarrow> engine_reply \<Rightarrow> addr \<Rightarrow> Client \<Rightarrow> unit outcome" where
  "pauseConsumer w c req er a peer =
     (let consumerId = trim (str_or_empty (q_consumerId (q_payload req))) in
      if consumerId = [] then (Inl ''missing consumerId'', w, [])
      else
        (case map_of (c_consumers peer) consumerId of
           None \<Rightarrow> (Inl ''consumer not found'', w, [])
         | Some cons \<Rightarrow>
             (case e_pause er of
                Inl m \<Rightarrow> (Inl m, w, [Engine (PauseConsumer (consumer_id cons))])
              | Inr _ \<Rightarrow>
                  (Inr (), w,
                   [Engine (PauseConsumer (consumer_id cons)),
                    Send (sock c) (Response (q_requestId req) True DEmpty)]))))"

definition resumeConsumer ::
  "world \<Rightarrow> conn \<Rightarrow> request \<Rightarrow> engine_reply \<Rightarrow> addr \<Rightarrow> Client \<Rightarrow> unit outcome" where
  "resumeConsumer w c req er a peer =
     (let consumerId = trim (str_or_empty (q_consumerId (q_payload req))) in
      if consumerId = [] then (Inl ''missing consumerId'', w, [])
      else
        (case map_of (c_consumers peer) consumerId of
           None \<Rightarrow> (Inl ''consumer not found'', w, [])
         | Some cons \<Rightarrow>
             (case e_pause er of
                Inl m \<Rightarrow> (Inl m, w, [Engine (ResumeConsumer (consumer_id cons))])
              | Inr _ \<Rightarrow>
                  (Inr (), w,
                   [Engine (ResumeConsumer (consumer_id cons)),
                    Send (sock c) (Response (q_requestId req) True DEmpty)]))))"

text \<open>
  The requests served on the peer that \<open>payload.sessionId\<close> names: the peer is looked up
  in \<open>sessions\<close>, its room (when it has one) must be the room the socket's token binds,
  and the request goes to the handler of its type. A type that no handler knows is
  answered by \<open>fail("unknown type")\<close>, which is a reply and not an exception.
\<close>

definition located :: "world \<Rightarrow> conn \<Rightarrow> request \<Rightarrow> engine_reply \<Rightarrow> unit outcome" where
  "located w c req er =
     (let session_id = trim (str_or_empty (q_sessionId (q_payload req))) in
      case (if session_id \<noteq> [] then find_session w session_id else None) of
        None \<Rightarrow> (Inl ''invalid sessionId (peer not found)'', w, [])
      | Some (a, peer) \<Rightarrow>
          (case (if given (c_roomId peer) then requireRoomIdMatch c (the (c_roomId peer)) else Inr []) of
             Inl e \<Rightarrow> (Inl e, w, [])
           | Inr _ \<Rightarrow>
               (if q_type req = JStr ''createTransport'' then createTransport w c req er a peer
                else if q_type req = JStr ''connectTransport'' then connectTransport w c req er a peer
                else if q_type req = JStr ''produce'' then produce w c req er a peer
                else if q_type req = JStr ''pauseProducer'' then pauseProducer w c req er a peer
                else if q_type req = JStr ''resumeProducer'' then resumeProducer w c req er a peer
                else if q_type req = JStr ''consume'' then consume w c req er a peer
                else if q_type req = JStr ''pauseConsumer'' then pauseConsumer w c req er a peer
                else if q_type req = JStr ''resumeConsumer'' then resumeConsumer w c req er a peer
                else (Inr (), w,
                      [Send (sock c) (Response (q_requestId req) False (DError ''unknown type''))]))))"

text \<open>The body of the \<open>try\<close> block of the message handler.\<close>

definition handle :: "world \<Rightarrow> conn \<Rightarrow> request \<Rightarrow> engine_reply \<Rightarrow> unit outcome" where
  "handle w c req er =
     (if q_type req = JStr ''resumeSession'' then resumeSession w c req er
      else if q_type req = JStr ''join'' then join w c req er
      else if q_type req = JStr ''listProducers'' \<or> q_type req = JStr ''getRoomProducers''
        then listProducers w c req
      else located w c req er)"

text \<open>
  The message handler of an admitted socket: the \<open>try\<close> block, and the \<open>catch\<close> that
  answers an exception by \<open>fail(e)\<close>. The message is taken as already parsed into
  \<open>{type, requestId, payload}\<close>, and a send on a socket does not throw.
\<close>

definition on_message :: "world \<Rightarrow> conn \<Rightarrow> request \<Rightarrow> engine_reply \<Rightarrow> world \<times> action list" where
  "on_message w c req er =
     (case handle w c req er of
        (Inl e, w1, acts) \<Rightarrow>
          (w1, acts @ [Send (sock c) (Response (q_requestId req) False (DError e))])
      | (Inr _, w1, acts) \<Rightarrow> (w1, acts))"

subsection \<open>Events of the sockets and of the engine\<close>

text \<open>
  \<open>ws.on("close")\<close>: the first peer of \<open>sessions\<close> that holds the socket enters grace.
\<close>

definition on_close :: "world \<Rightarrow> ws_id \<Rightarrow> int \<Rightarrow> world" where
  "on_close w ws clock =
     (case filter (\<lambda>(sid, a). case deref w a of None \<Rightarrow> False | Some p \<Rightarrow> c_ws p = ws) (sessions w) of
        [] \<Rightarrow> w
      | (sid, a) # _ \<Rightarrow> scheduleGraceCleanup w a clock)"

text \<open>
  The \<open>transportclose\<close> handler that \<open>produce\<close> registers on the producer \<open>pid\<close> of the
  peer at \<open>a\<close>, and the \<open>transportclose\<close> and \<open>producerclose\<close> handlers that \<open>consume\<close>
  registers on a consumer.
\<close>

definition on_producer_transportclose :: "world \<Rightarrow> addr \<Rightarrow> string \<Rightarrow> world \<times> action list" where
  "on_producer_transportclose w a pid =
     (case deref w a of
        None \<Rightarrow> (w, [])
      | Some peer \<Rightarrow>
          (store a (peer\<lparr> c_producers := AList.delete pid (c_producers peer) \<rparr>) w,
           [Engine (CloseProducer pid)]))"

definition on_consumer_transportclose :: "world \<Rightarrow> addr \<Rightarrow> string \<Rightarrow> world \<times> action list" where
  "on_consumer_transportclose w a cid =
     (case deref w a of
        None \<Rightarrow> (w, [])
      | Some peer \<Rightarrow> (store a (peer\<lparr> c_consumers := AList.delete cid (c_consumers peer) \<rparr>) w, []))"

definition on_consumer_producerclose :: "world \<Rightarrow> addr \<Rightarrow> string \<Rightarrow> world \<times> action list" where
  "on_consumer_producerclose w a cid =
     (case deref w a of
        None \<Rightarrow> (w, [])
      | Some peer \<Rightarrow>
          (store a (peer\<lparr> c_consumers := AList.delete cid (c_consumers peer) \<rparr>) w,
           [Engine (CloseConsumer cid)]))"


section \<open>Notions used to state the properties of the token codec\<close>

subsection \<open>What is asked of the runtime\<close>

text \<open>
  The base64 text of a buffer is made of the 64 characters of the alphabet, followed by
  at most two \<open>=\<close> that fill it up to a multiple of four characters, and decoding it
  gives the buffer back. \<open>base64_contract rt b\<close> asks this of the runtime for the
  buffer \<open>b\<close>.
\<close>

definition b64_alphabet :: "char set" where
  "b64_alphabet = set ''ABCDEFGHIJKLMNOPQRSTUVWXYZabcdefghijklmnopqrstuvwxyz0123456789+/''"

definition wf_base64 :: "string \<Rightarrow> bool" where
  "wf_base64 s =
     (let body = takeWhile (\<lambda>c. c \<noteq> CHR ''='') s; pad = dropWhile (\<lambda>c. c \<noteq> CHR ''='') s
      in set body \<subseteq> b64_alphabet \<and> length s mod 4 = 0 \<and>
         (pad = [] \<or> pad = ''='' \<or> pad = ''==''))"

definition base64_contract :: "runtime \<Rightarrow> bytes \<Rightarrow> bool" where
  "base64_contract rt b = (wf_base64 (to_base64 rt b) \<and> from_base64 rt (to_base64 rt b) = b)"

subsection \<open>Valid payloads, bindings and live nonces\<close>

text \<open>
  \<open>fields_ok\<close>: the five required fields are present with their types, as the field
  checks of \<open>verifyToken\<close> ask. \<open>bindings_ok\<close>: none of the optional bindings of the
  options fails on the payload. \<open>live u j now\<close>: the nonce \<open>j\<close> is in the table with an
  \<open>exp\<close> that is still in the future at \<open>now\<close>, so that the reaping keeps it.
\<close>

definition fields_ok :: "RawPayload \<Rightarrow> bool" where
  "fields_ok p =
     (truthy (rRoomId p) \<and> is_string (rRoomId p) \<and> truthy (rPeerId p) \<and> is_string (rPeerId p) \<and>
      truthy (rJti p) \<and> is_string (rJti p) \<and> truthy (rIat p) \<and> is_number (rIat p) \<and>
      truthy (rExp p) \<and> is_number (rExp p))"

definition bindings_ok :: "verify_opts \<Rightarrow> RawPayload \<Rightarrow> bool" where
  "bindings_ok opts p =
     (\<not> (given (expectedRoomId opts) \<and> Some (rRoomId p) \<noteq> map_option JStr (expectedRoomId opts)) \<and>
      \<not> (given (expectedPeerId opts) \<and> Some (rPeerId p) \<noteq> map_option JStr (expectedPeerId opts)) \<and>
      \<not> (given (expectedSessionId opts) \<and>
           Some (if truthy (rSessionId p) then rSessionId p else JStr [])
             \<noteq> map_option JStr (expectedSessionId opts)))"

definition live :: "jti_table \<Rightarrow> string \<Rightarrow> int \<Rightarrow> bool" where
  "live usedJti j now = (case usedJti j of None \<Rightarrow> False | Some e \<Rightarrow> now < e)"


text \<open>Verifications run one after the other on the same table.\<close>

fun verify_all :: "runtime \<Rightarrow> (int \<times> string \<times> verify_opts) list \<Rightarrow> jti_table \<Rightarrow> jti_table" where
  "verify_all rt [] u = u"
| "verify_all rt ((clock, token, opts) # rest) u =
     verify_all rt rest (snd (verifyToken rt clock token opts u))"

subsection \<open>A runtime to evaluate on\<close>

text \<open>
  A small runtime on which the codec can be run: the standard base64 conversion, and
  simple stand-ins for the keyed hash and for the JSON text. It serves to evaluate the
  codec on concrete tokens; no property below is proved of this runtime only, except
  the concrete evaluations.
\<close>

definition b64_chars :: string where
  "b64_chars = ''ABCDEFGHIJKLMNOPQRSTUVWXYZabcdefghijklmnopqrstuvwxyz0123456789+/''"

fun demo_to_base64 :: "bytes \<Rightarrow> string" where
  "demo_to_base64 (a # b # c # rest) =
     [b64_chars ! (a div 4), b64_chars ! (a mod 4 * 16 + b div 16),
      b64_chars ! (b mod 16 * 4 + c div 64), b64_chars ! (c mod 64)] @ demo_to_base64 rest"
| "demo_to_base64 [a, b] =
     [b64_chars ! (a div 4), b64_chars ! (a mod 4 * 16 + b div 16), b64_chars ! (b mod 16 * 4), CHR ''='']"
| "demo_to_base64 [a] = [b64_chars ! (a div 4), b64_chars ! (a mod 4 * 16), CHR ''='', CHR ''='']"
| "demo_to_base64 [] = []"

definition sextet :: "char \<Rightarrow> nat" where
  "sextet c = length (takeWhile (\<lambda>x. x \<noteq> c) b64_chars)"

fun demo_from_base64 :: "string \<Rightarrow> bytes" where
  "demo_from_base64 (w # x # y # z # rest) =
     (if y = CHR ''='' then [sextet w * 4 + sextet x div 16]
      else if z = CHR ''='' then [sextet w * 4 + sextet x div 16, sextet x mod 16 * 16 + sextet y div 4]
      else [sextet w * 4 + sextet x div 16, sextet x mod 16 * 16 + sextet y div 4,
            sextet y mod 4 * 64 + sextet z] @ demo_from_base64 rest)"
| "demo_from_base64 _ = []"

text \<open>A keyed checksum standing in for HMAC-SHA256.\<close>

definition demo_hmac :: "string \<Rightarrow> bytes" where
  "demo_hmac s = [fold (\<lambda>c h. (h * 31 + of_char c + 7) mod 256) s 17,
                  fold (\<lambda>c h. (h * 17 + of_char c + 3) mod 256) s 101]"

text \<open>A length-prefixed layout standing in for JSON.\<close>

definition put_str :: "string \<Rightarrow> bytes" where
  "put_str s = length s # map of_char s"

definition put_int :: "int \<Rightarrow> bytes" where
  "put_int n = [if n < 0 then 1 else 0, nat \<bar>n\<bar> div 65536, nat \<bar>n\<bar> div 256 mod 256, nat \<bar>n\<bar> mod 256]"

definition demo_stringify :: "TokenPayload \<Rightarrow> bytes" where
  "demo_stringify p =
     put_str (roomId p) @ put_str (peerId p) @ put_str (jti p) @ put_int (iat p) @ put_int (exp p) @
     (case sessionId p of None \<Rightarrow> [0] | Some s \<Rightarrow> 1 # put_str s)"

definition printable :: string where
  "printable = '' !?#$%&?()*+,-./0123456789:;<=>?@ABCDEFGHIJKLMNOPQRSTUVWXYZ[?]^_`abcdefghijklmnopqrstuvwxyz{|}~''"

definition get_str :: "bytes \<Rightarrow> string \<times> bytes" where
  "get_str b =
     (case b of [] \<Rightarrow> ([], [])
      | n # r \<Rightarrow> (map (\<lambda>k. printable ! (k - 32)) (take n r), drop n r))"

definition get_int :: "bytes \<Rightarrow> int \<times> bytes" where
  "get_int b =
     (case b of s # x # y # z # r \<Rightarrow> ((if s = 1 then - 1 else 1) * int (x * 65536 + y * 256 + z), r)
      | _ \<Rightarrow> (0, []))"

definition demo_parse :: "bytes \<Rightarrow> string + RawPayload" where
  "demo_parse b =
     (let (r, b1) = get_str b; (p, b2) = get_str b1; (j, b3) = get_str b2;
          (i, b4) = get_int b3; (e, b5) = get_int b4
      in case b5 of
           [] \<Rightarrow> Inl ''Unexpected end of JSON input''
         | t # b6 \<Rightarrow>
             Inr \<lparr> rRoomId = JStr r, rPeerId = JStr p,
                   rSessionId = (if t = 0 then JUndefined else JStr (fst (get_str b6))),
                   rJti = JStr j, rIat = JNum i, rExp = JNum e \<rparr>)"

definition demo_rt :: runtime where
  "demo_rt = \<lparr> hmac_sha256 = demo_hmac, to_base64 = demo_to_base64, from_base64 = demo_from_base64,
               json_stringify = demo_stringify, json_parse = demo_parse \<rparr>"

definition demo_payload :: TokenPayload where
  "demo_payload = \<lparr> roomId = ''r1'', peerId = ''p1'', sessionId = None, jti = ''j1'',
                    iat = 1000, exp = 1060 \<rparr>"




text \<open>
  The payload of the first scenario of the specification, its token on this runtime, and
  the same payload with an empty room id.
\<close>

definition demo_token :: string where
  "demo_token = ''AnIxAnAxAmoxAAAD6AAABCQA.BbE''"


definition nameless_payload :: TokenPayload where
  "nameless_payload = \<lparr> roomId = [], peerId = ''p1'', sessionId = None, jti = ''j1'',
                        iat = 1000, exp = 1060 \<rparr>"


section \<open>The two handlers of the server without the token gate\<close>

text \<open>
  The repository carries a second \<open>server.ts\<close>, without the token gate. Its \<open>produce\<close>
  and \<open>createTransport\<close> handlers are embedded here for comparison with the gated ones;
  they too run on the peer that \<open>payload.sessionId\<close> names. In this variant the engine
  is given \<open>payload.kind\<close> unchecked and the handler reads the kind of the producer it
  gets back, so the engine's answer is a whole producer. The payload object is taken to
  be present.
\<close>

definition produce_ungated ::
  "world \<Rightarrow> conn \<Rightarrow> request \<Rightarrow> string + Producer \<Rightarrow> addr \<Rightarrow> Client \<Rightarrow> unit outcome" where
  "produce_ungated w c req engine_producer a peer =
     (case (case c_roomId peer of None \<Rightarrow> None | Some k \<Rightarrow> map_option (Pair k) (map_of (rooms w) k)) of
        None \<Rightarrow> (Inl ''room not found'', w, [])
      | Some (k, room) \<Rightarrow>
          (if c_send peer = None then (Inl ''send transport not ready'', w, [])
           else
             (case engine_producer of
                Inl m \<Rightarrow> (Inl m, w, [])
              | Inr p \<Rightarrow>
                  (let w1 = store a (peer\<lparr> c_producers :=
                                       AList.update (producer_id p) p (c_producers peer) \<rparr>) w;
                       room1 = room\<lparr> r_producers :=
                                 AList.update (producer_id p)
                                   \<lparr> rp_peerId = c_peerId peer, rp_producer = p \<rparr> (r_producers room) \<rparr>;
                       w2 = put_room k room1 w1
                   in (Inr (), w2,
                       (if producer_kind p = audio then [Engine (AddToObserver k (producer_id p))] else []) @
                       [Send (sock c) (Response (q_requestId req) True (DProducerId (producer_id p)))] @
                       broadcastRoom w2 room1
                         (NewProducer (producer_id p) (c_peerId peer) (producer_kind p))
                         (Some (c_peerId peer)))))))"

definition createTransport_ungated ::
  "world \<Rightarrow> conn \<Rightarrow> request \<Rightarrow> engine_reply \<Rightarrow> addr \<Rightarrow> Client \<Rightarrow> unit outcome" where
  "createTransport_ungated w c req er a peer =
     (case (case c_roomId peer of None \<Rightarrow> None | Some k \<Rightarrow> map_of (rooms w) k) of
        None \<Rightarrow> (Inl ''room not found'', w, [])
      | Some room \<Rightarrow>
          (let dir = q_direction (q_payload req);
               (peer1, a1) =
                 (if dir = JStr ''send'' \<and> c_send peer \<noteq> None
                  then (peer\<lparr> c_send := None \<rparr>, [Engine (CloseTransport (the (c_send peer)))])
                  else (peer, []));
               (peer2, a2) =
                 (if dir = JStr ''recv'' \<and> c_recv peer1 \<noteq> None
                  then (peer1\<lparr> c_recv := None \<rparr>, [Engine (CloseTransport (the (c_recv peer1)))])
                  else (peer1, []))
           in case e_transport er of
                Inl m \<Rightarrow> (Inl m, store a peer2 w, a1 @ a2)
              | Inr t \<Rightarrow>
                  (Inr (),
                   store a (if dir = JStr ''send'' then peer2\<lparr> c_send := Some t \<rparr>
                            else peer2\<lparr> c_recv := Some t \<rparr>) w,
                   a1 @ a2 @ [Send (sock c) (Response (q_requestId req) True (DTransport t))])))"

section \<open>Notions used to state the properties of the server\<close>

subsection \<open>A small session\<close>

text \<open>
  Two sockets admitted for room \<open>r1\<close> with the peer ids \<open>p1\<close> and \<open>p2\<close>, tokens that
  bind no session; an engine that answers every call; and the requests of a short
  session: both peers join, the first one creates its send transport and produces audio.
\<close>

definition conn1 :: conn where
  "conn1 = \<lparr> sock = 1, tokenRoomId = ''r1'', tokenPeerId = ''p1'', tokenSessionId = [] \<rparr>"

definition conn2 :: conn where
  "conn2 = \<lparr> sock = 2, tokenRoomId = ''r1'', tokenPeerId = ''p2'', tokenSessionId = [] \<rparr>"

definition engine_ok :: engine_reply where
  "engine_ok = \<lparr> e_room = Inr (), e_transport = Inr ''T1'', e_connect = Inr (),
                 e_produce = Inr ''P1'', e_canConsume = Inr True,
                 e_consume = Inr \<lparr> consumer_id = ''C1'', consumer_kind = audio \<rparr>,
                 e_pause = Inr (), e_rid = ''0'' \<rparr>"

definition no_payload :: payload where
  "no_payload = \<lparr> q_roomId = JUndefined, q_sessionId = JUndefined, q_direction = JUndefined,
                  q_dtlsParameters = JUndefined, q_kind = JUndefined, q_rtpParameters = JUndefined,
                  q_appData = JUndefined, q_producerId = JUndefined, q_rtpCapabilities = JUndefined,
                  q_consumerId = JUndefined \<rparr>"

definition join_req :: "string \<Rightarrow> request" where
  "join_req sid = \<lparr> q_type = JStr ''join'', q_requestId = JNum 1,
                     q_payload = no_payload\<lparr> q_roomId := JStr ''r1'', q_sessionId := JStr sid \<rparr> \<rparr>"

definition transport_req :: "string \<Rightarrow> string \<Rightarrow> request" where
  "transport_req sid dir = \<lparr> q_type = JStr ''createTransport'', q_requestId = JNum 2,
                      q_payload = no_payload\<lparr> q_sessionId := JStr sid, q_direction := JStr dir \<rparr> \<rparr>"

definition produce_req :: "string \<Rightarrow> request" where
  "produce_req sid = \<lparr> q_type = JStr ''produce'', q_requestId = JNum 3,
                        q_payload = no_payload\<lparr> q_sessionId := JStr sid, q_kind := JStr ''audio'',
                                                 q_rtpParameters := JObj \<rparr> \<rparr>"

definition consume_req :: "string \<Rightarrow> string \<Rightarrow> request" where
  "consume_req sid pid = \<lparr> q_type = JStr ''consume'', q_requestId = JNum 4,
                        q_payload = no_payload\<lparr> q_sessionId := JStr sid, q_producerId := JStr pid,
                                                 q_rtpCapabilities := JObj \<rparr> \<rparr>"

definition joined :: world where
  "joined = fst (on_message (fst (on_message empty_world conn1 (join_req ''s1'') engine_ok))
                   conn2 (join_req ''s2'') engine_ok)"

definition sending :: world where
  "sending = fst (on_message joined conn1 (transport_req ''s1'' ''send'') engine_ok)"

definition producing :: world where
  "producing = fst (on_message sending conn1 (produce_req ''s1'') engine_ok)"

definition receiving :: world where
  "receiving = fst (on_message producing conn1 (transport_req ''s1'' ''recv'')
                      (engine_ok\<lparr> e_transport := Inr ''T2'' \<rparr>))"


subsection \<open>Comparing the same request on two sockets\<close>

text \<open>\<open>redirect s\<close> readdresses the responses of an action list to the socket \<open>s\<close>.\<close>

fun redirect :: "ws_id \<Rightarrow> action \<Rightarrow> action" where
  "redirect s (Send ws (Response r ok d)) = Send s (Response r ok d)"
| "redirect s a = a"

text \<open>
  Two outcomes that differ at most in the socket their responses are addressed to.
\<close>

definition same_but_socket :: "ws_id \<Rightarrow> unit outcome \<Rightarrow> unit outcome \<Rightarrow> bool" where
  "same_but_socket s x y =
     (fst y = fst x \<and> fst (snd y) = fst (snd x) \<and> snd (snd y) = map (redirect s) (snd (snd x)))"


subsection \<open>Responses and closes among the actions\<close>

fun is_response :: "action \<Rightarrow> bool" where
  "is_response (Send ws (Response r ok d)) = True"
| "is_response a = False"

fun closes_socket :: "ws_id \<Rightarrow> action \<Rightarrow> bool" where
  "closes_socket s (CloseWs ws code reason) = (ws = s)"
| "closes_socket s a = False"

fun closes_1008 :: "action \<Rightarrow> bool" where
  "closes_1008 (CloseWs ws code reason) = (code = Some 1008)"
| "closes_1008 a = False"

fun attaches :: "action \<Rightarrow> bool" where
  "attaches (Engine (AddToObserver k p)) = True"
| "attaches a = False"

text \<open>
  An action is \<open>benign\<close> for a socket when it is no response, does not close that socket,
  is no close with code 1008 and attaches no producer to a level observer.
\<close>

definition benign :: "ws_id \<Rightarrow> action \<Rightarrow> bool" where
  "benign s a = (\<not> is_response a \<and> \<not> closes_socket s a \<and> \<not> closes_1008 a \<and> \<not> attaches a)"

text \<open>
  An outcome is \<open>tidy\<close> when its actions are benign, but for the responses, and the
  responses are: none when the handler threw, exactly one, addressed to the requesting
  socket under the request's id, when it returned.
\<close>

definition tidy :: "conn \<Rightarrow> request \<Rightarrow> 'a outcome \<Rightarrow> bool" where
  "tidy c req x =
     (list_all (\<lambda>a. \<not> closes_socket (sock c) a \<and> \<not> closes_1008 a \<and> \<not> attaches a)
        (snd (snd x)) \<and>
      (case fst x of
         Inl e \<Rightarrow> filter is_response (snd (snd x)) = []
       | Inr _ \<Rightarrow> (\<exists>ok d. filter is_response (snd (snd x)) =
                           [Send (sock c) (Response (q_requestId req) ok d)])))"


subsection \<open>Reachable states\<close>

text \<open>
  \<open>reachable w\<close>: the gated server can be in state \<open>w\<close>. The steps are the messages of
  the admitted sockets (any socket, request and engine answers), the closing of a
  socket, the expiry of a grace timer, the \<open>volumes\<close> and \<open>silence\<close> ticks of the level
  observer of a room, and the close events of the engine. The observer of a room reports
  producers of that room: a \<open>volumes\<close> tick lists, with their volumes, producers that
  are in the producer index of the room at the time of the tick.
\<close>

inductive reachable :: "world \<Rightarrow> bool" where
  start: "reachable empty_world"
| message: "reachable w \<Longrightarrow> reachable (fst (on_message w c req er))"
| socket_closed: "reachable w \<Longrightarrow> reachable (on_close w ws clock)"
| grace_expired: "reachable w \<Longrightarrow> reachable (fst (on_grace_expired w a))"
| volumes:
    "reachable w \<Longrightarrow> map_of (rooms w) k = Some room \<Longrightarrow>
     list_all (\<lambda>(p, v). map_of (r_producers room) p \<noteq> None) vols \<Longrightarrow>
     reachable (fst (on_volumes w k vols))"
| silence: "reachable w \<Longrightarrow> reachable (fst (on_silence w k))"
| producer_transportclose:
    "reachable w \<Longrightarrow> reachable (fst (on_producer_transportclose w a pid))"
| consumer_transportclose:
    "reachable w \<Longrightarrow> reachable (fst (on_consumer_transportclose w a cid))"
| consumer_producerclose:
    "reachable w \<Longrightarrow> reachable (fst (on_consumer_producerclose w a cid))"

text \<open>
  The session of above, continued: the observer of \<open>r1\<close> reports the producer \<open>P1\<close>;
  then the socket of \<open>p1\<close> closes and its grace timer expires.
\<close>

definition talking :: world where
  "talking = fst (on_volumes producing ''r1'' [(''P1'', - 40)])"

definition departed :: world where
  "departed = fst (on_grace_expired (on_close talking 1 5000) 1)"

text \<open>The speaking set of a room lies within the keys of its producer index.\<close>

definition room_ok :: "Room \<Rightarrow> bool" where
  "room_ok room = (set (r_speaking room) \<subseteq> fst ` set (r_producers room))"

definition speaking_indexed :: "world \<Rightarrow> bool" where
  "speaking_indexed w = (\<forall>(k, room) \<in> set (rooms w). room_ok room)"


section \<open>Properties of the token codec\<close>

lemma alphabet_no_special:
  "c \<in> b64_alphabet \<Longrightarrow> c \<noteq> CHR ''='' \<and> c \<noteq> CHR ''-'' \<and> c \<noteq> CHR ''_'' \<and> c \<noteq> CHR ''.''"
  by (auto simp: b64_alphabet_def)

lemma replace_back:
  assumes "set body \<subseteq> b64_alphabet"
  shows "replace_all CHR ''_'' CHR ''/'' (replace_all CHR ''-'' CHR ''+''
           (replace_all CHR ''/'' CHR ''_'' (replace_all CHR ''+'' CHR ''-'' body))) = body"
  using assms
proof (induction body)
  case Nil
  then show ?case by (simp add: replace_all_def)
next
  case (Cons c cs)
  then have "c \<noteq> CHR ''-''" "c \<noteq> CHR ''_''" using alphabet_no_special by auto
  with Cons show ?case by (simp add: replace_all_def)
qed

lemma replace_no_dot:
  assumes "set body \<subseteq> b64_alphabet"
  shows "CHR ''.'' \<notin> set (replace_all CHR ''/'' CHR ''_'' (replace_all CHR ''+'' CHR ''-'' body))"
  using assms alphabet_no_special by (auto simp: replace_all_def)

lemma wf_base64_parts:
  assumes "wf_base64 s"
  obtains body k where "s = body @ replicate k CHR ''=''" "set body \<subseteq> b64_alphabet"
    "k \<le> 2" "length s mod 4 = 0"
proof -
  let ?body = "takeWhile (\<lambda>c. c \<noteq> CHR ''='') s"
  let ?pad = "dropWhile (\<lambda>c. c \<noteq> CHR ''='') s"
  have s: "s = ?body @ ?pad" by simp
  have body: "set ?body \<subseteq> b64_alphabet" and len: "length s mod 4 = 0"
    and pad: "?pad = [] \<or> ?pad = ''='' \<or> ?pad = ''==''"
    using assms by (simp_all add: wf_base64_def Let_def)
  have "\<exists>k\<le>2. ?pad = replicate k CHR ''=''"
  proof -
    have "replicate 0 CHR ''='' = []" "replicate 1 CHR ''='' = ''=''"
      "replicate 2 CHR ''='' = ''==''" by (simp_all add: numeral_2_eq_2)
    with pad show ?thesis by (metis le_numeral_extra(3) one_le_numeral order_refl zero_le)
  qed
  then obtain k where k: "?pad = replicate k CHR ''=''" "k \<le> 2" by blast
  from s k(1) have eq: "s = ?body @ replicate k CHR ''=''" by simp
  show ?thesis by (rule that [OF eq body k(2) len])
qed

lemma remove_pad:
  assumes "set body \<subseteq> b64_alphabet"
  shows "remove_all CHR ''='' (body @ replicate k CHR ''='') = body"
proof -
  have "filter (\<lambda>c. c \<noteq> CHR ''='') body = body"
    using assms alphabet_no_special by (auto simp: filter_id_conv)
  then show ?thesis by (simp add: remove_all_def)
qed

lemma repad:
  assumes "k \<le> 2" "(n + k) mod 4 = 0"
  shows "(if n mod 4 \<noteq> 0 then body @ replicate (4 - n mod 4) c else body) = body @ replicate k (c::char)"
proof -
  from assms have "k = 0 \<and> n mod 4 = 0 \<or> k = 1 \<and> n mod 4 = 3 \<or> k = 2 \<and> n mod 4 = 2"
    by presburger
  then show ?thesis by auto
qed

lemma base64url_roundtrip:
  assumes "base64_contract rt b"
  shows "base64urlDecodeToBuffer rt (base64urlEncode rt b) = b"
proof -
  from assms have wf: "wf_base64 (to_base64 rt b)" and inv: "from_base64 rt (to_base64 rt b) = b"
    by (simp_all add: base64_contract_def)
  from wf obtain body k where s: "to_base64 rt b = body @ replicate k CHR ''=''"
    and body: "set body \<subseteq> b64_alphabet" and k: "k \<le> 2" and len: "length (to_base64 rt b) mod 4 = 0"
    by (rule wf_base64_parts)
  have enc: "base64urlEncode rt b =
      replace_all CHR ''/'' CHR ''_'' (replace_all CHR ''+'' CHR ''-'' body)"
    by (simp add: base64urlEncode_def s remove_pad [OF body])
  have unrepl: "replace_all CHR ''_'' CHR ''/'' (replace_all CHR ''-'' CHR ''+'' (base64urlEncode rt b)) = body"
    by (simp only: enc replace_back [OF body])
  from len s have lk: "(length body + k) mod 4 = 0" by simp
  from repad [OF k lk]
  have "(if length body mod 4 \<noteq> 0 then body @ replicate (4 - length body mod 4) CHR ''='' else body)
        = to_base64 rt b"
    by (simp add: s)
  then show ?thesis
    unfolding base64urlDecodeToBuffer_def Let_def unrepl by (simp add: inv)
qed

lemma base64url_no_dot:
  assumes "base64_contract rt b"
  shows "CHR ''.'' \<notin> set (base64urlEncode rt b)"
proof -
  from assms have wf: "wf_base64 (to_base64 rt b)" by (simp add: base64_contract_def)
  from wf obtain body k where s: "to_base64 rt b = body @ replicate k CHR ''=''"
    and body: "set body \<subseteq> b64_alphabet"
    by (rule wf_base64_parts)
  have enc: "base64urlEncode rt b =
      replace_all CHR ''/'' CHR ''_'' (replace_all CHR ''+'' CHR ''-'' body)"
    by (simp add: base64urlEncode_def s remove_pad [OF body])
  show ?thesis unfolding enc by (rule replace_no_dot [OF body])
qed

lemma split_on_no_sep: "d \<notin> set s \<Longrightarrow> split_on d s = [s]"
  by (induction s) auto

lemma split_on_one_sep:
  "d \<notin> set a \<Longrightarrow> d \<notin> set b \<Longrightarrow> split_on d (a @ d # b) = [a, b]"
  by (induction a) (auto simp: split_on_no_sep)

lemma open_signed:
  assumes p: "base64_contract rt (json_stringify rt payload)"
    and s: "base64_contract rt (hmac_sha256 rt (base64urlEncode rt (json_stringify rt payload)))"
    and j: "json_parse rt (json_stringify rt payload) = Inr (raw_of payload)"
  shows "open_token rt (signToken rt payload) = Inr (raw_of payload)"
proof -
  let ?pb = "base64urlEncode rt (json_stringify rt payload)"
  let ?sb = "base64urlEncode rt (hmac_sha256 rt ?pb)"
  have split: "split_on CHR ''.'' (signToken rt payload) = [?pb, ?sb]"
    using base64url_no_dot [OF p] base64url_no_dot [OF s]
    by (simp add: signToken_def Let_def split_on_one_sep)
  show ?thesis
    by (simp add: open_token_def split Let_def base64url_roundtrip [OF p]
        base64url_roundtrip [OF s] j)
qed


lemma check_payload_expired:
  "fields_ok p \<Longrightarrow> num_of (rExp p) \<le> now \<Longrightarrow> check_payload now opts u p = (Inl expired, u)"
  by (simp add: check_payload_def fields_ok_def)

lemma check_payload_iat_in_future:
  "fields_ok p \<Longrightarrow> now < num_of (rExp p) \<Longrightarrow> now + 30 < num_of (rIat p) \<Longrightarrow>
   check_payload now opts u p = (Inl iat_in_future, u)"
  by (simp add: check_payload_def fields_ok_def)

lemma check_payload_accept:
  "fields_ok p \<Longrightarrow> now < num_of (rExp p) \<Longrightarrow> num_of (rIat p) \<le> now + 30 \<Longrightarrow> bindings_ok opts p \<Longrightarrow>
   \<not> (consumeJti opts \<and> live u (str_of (rJti p)) now) \<Longrightarrow>
   fst (check_payload now opts u p) = Inr p"
  by (auto simp: check_payload_def fields_ok_def bindings_ok_def live_def cleanupUsedJti_def Let_def
      split: option.splits if_splits)

lemma check_payload_replayed:
  "fields_ok p \<Longrightarrow> now < num_of (rExp p) \<Longrightarrow> num_of (rIat p) \<le> now + 30 \<Longrightarrow> bindings_ok opts p \<Longrightarrow>
   consumeJti opts \<Longrightarrow> live u (str_of (rJti p)) now \<Longrightarrow>
   fst (check_payload now opts u p) = Inl replayed"
  by (auto simp: check_payload_def fields_ok_def bindings_ok_def live_def cleanupUsedJti_def Let_def
      split: option.splits if_splits)

lemma check_payload_refuses_live:
  "consumeJti opts \<Longrightarrow> live u (str_of (rJti p)) now \<Longrightarrow> fst (check_payload now opts u p) \<noteq> Inr q"
  by (auto simp: check_payload_def live_def cleanupUsedJti_def Let_def split: option.splits if_splits)

lemma check_payload_sound:
  "fst (check_payload now opts u p) = Inr q \<Longrightarrow>
   q = p \<and> fields_ok p \<and> now < num_of (rExp p) \<and> num_of (rIat p) \<le> now + 30 \<and> bindings_ok opts p"
  by (auto simp: check_payload_def fields_ok_def bindings_ok_def Let_def split: if_splits)

lemma check_payload_records:
  "fst (check_payload now opts u p) = Inr q \<Longrightarrow> consumeJti opts \<Longrightarrow>
   snd (check_payload now opts u p) (str_of (rJti p)) = Some (num_of (rExp p))"
  by (auto simp: check_payload_def Let_def split: if_splits)

lemma check_payload_keeps_live:
  "live u j now \<Longrightarrow> now' \<le> now \<Longrightarrow> snd (check_payload now' opts u p) j = u j"
  by (auto simp: check_payload_def live_def cleanupUsedJti_def Let_def split: option.splits if_splits)

lemma verifyToken_keeps_live:
  "live u j now \<Longrightarrow> now_of clock opts \<le> now \<Longrightarrow> snd (verifyToken rt clock token opts u) j = u j"
  by (simp add: verifyToken_def check_payload_keeps_live split: sum.splits)


lemmas demo_defs = demo_rt_def demo_payload_def demo_stringify_def demo_parse_def put_str_def put_int_def
  get_str_def get_int_def demo_hmac_def sextet_def b64_chars_def printable_def

lemma demo_sign: "signToken demo_rt demo_payload = demo_token"
  by (simp add: signToken_def base64urlEncode_def replace_all_def remove_all_def demo_token_def demo_defs)

lemma demo_open: "open_token demo_rt demo_token = Inr (raw_of demo_payload)"
  by (simp add: open_token_def base64urlDecodeToBuffer_def replace_all_def demo_token_def raw_of_def demo_defs)

lemma demo_contract_payload: "base64_contract demo_rt (json_stringify demo_rt demo_payload)"
  by (simp add: base64_contract_def wf_base64_def b64_alphabet_def demo_defs)


lemma demo_contract_sig:
  "base64_contract demo_rt (hmac_sha256 demo_rt (base64urlEncode demo_rt (json_stringify demo_rt demo_payload)))"
  by (simp add: base64_contract_def wf_base64_def b64_alphabet_def base64urlEncode_def
      replace_all_def remove_all_def demo_defs)

lemma demo_json: "json_parse demo_rt (json_stringify demo_rt demo_payload) = Inr (raw_of demo_payload)"
  by (simp add: raw_of_def demo_defs)

lemma verifyToken_opened:
  "open_token rt token = Inr p \<Longrightarrow>
   verifyToken rt clock token opts u = check_payload (now_of clock opts) opts u p"
  by (simp add: verifyToken_def)

lemma verifyToken_sound:
  assumes "fst (verifyToken rt clock token opts u) = Inr q"
  shows "open_token rt token = Inr q \<and> fields_ok q \<and> now_of clock opts < num_of (rExp q) \<and>
         num_of (rIat q) \<le> now_of clock opts + 30 \<and> bindings_ok opts q"
proof (cases "open_token rt token")
  case (Inl e)
  with assms show ?thesis by (simp add: verifyToken_def)
next
  case (Inr p)
  with assms have "fst (check_payload (now_of clock opts) opts u p) = Inr q"
    by (simp add: verifyToken_def)
  from check_payload_sound [OF this] Inr show ?thesis by simp
qed

text \<open>
  Claim C6. For a token that opens (format, signature and parsing pass) and whose five
  required fields are present, verified at time \<open>now\<close>: it fails with \<open>expired\<close>
  whenever \<open>exp \<le> now\<close>, in particular when \<open>exp = now\<close>; with \<open>exp\<close> in the future
  it fails with \<open>iat_in_future\<close> when \<open>iat = now + 31\<close> and, the bindings and the
  nonce being in order, it is accepted when \<open>iat = now + 30\<close>. And whatever the token,
  an accepted payload has \<open>now < exp\<close>: a token whose \<open>exp\<close> has passed is never
  accepted.
\<close>

theorem verify_time_boundaries:
  assumes "open_token rt token = Inr p" and "fields_ok p" and "now = now_of clock opts"
  shows "(num_of (rExp p) \<le> now \<longrightarrow> fst (verifyToken rt clock token opts u) = Inl expired) \<and>
         (now < num_of (rExp p) \<and> num_of (rIat p) = now + 31 \<longrightarrow>
            fst (verifyToken rt clock token opts u) = Inl iat_in_future) \<and>
         (now < num_of (rExp p) \<and> num_of (rIat p) = now + 30 \<and> bindings_ok opts p \<and>
          \<not> (consumeJti opts \<and> live u (str_of (rJti p)) now) \<longrightarrow>
            fst (verifyToken rt clock token opts u) = Inr p) \<and>
         (\<forall>t q. fst (verifyToken rt clock t opts u) = Inr q \<longrightarrow> now < num_of (rExp q))"
proof (intro conjI impI allI)
  assume "num_of (rExp p) \<le> now"
  with assms show "fst (verifyToken rt clock token opts u) = Inl expired"
    by (simp add: verifyToken_opened check_payload_expired)
next
  assume "now < num_of (rExp p) \<and> num_of (rIat p) = now + 31"
  with assms show "fst (verifyToken rt clock token opts u) = Inl iat_in_future"
    by (simp add: verifyToken_opened check_payload_iat_in_future)
next
  assume "now < num_of (rExp p) \<and> num_of (rIat p) = now + 30 \<and> bindings_ok opts p \<and>
          \<not> (consumeJti opts \<and> live u (str_of (rJti p)) now)"
  with assms show "fst (verifyToken rt clock token opts u) = Inr p"
    by (simp add: verifyToken_opened check_payload_accept)
next
  fix t q assume "fst (verifyToken rt clock t opts u) = Inr q"
  from verifyToken_sound [OF this] assms(3) show "now < num_of (rExp q)" by simp
qed

lemma demo_fields: "fields_ok (raw_of demo_payload)"
  by (simp add: fields_ok_def raw_of_def demo_payload_def)

theorem verify_time_boundaries_witness:
  "fst (verifyToken demo_rt 1060 demo_token no_opts Map.empty) = Inl expired \<and>
   fst (verifyToken demo_rt 969 demo_token no_opts Map.empty) = Inl iat_in_future \<and>
   fst (verifyToken demo_rt 970 demo_token no_opts Map.empty) = Inr (raw_of demo_payload)"
  using verify_time_boundaries [OF demo_open demo_fields, of 1060 1060 no_opts Map.empty]
    verify_time_boundaries [OF demo_open demo_fields, of 969 969 no_opts Map.empty]
    verify_time_boundaries [OF demo_open demo_fields, of 970 970 no_opts Map.empty]
  by (simp add: now_of_def no_opts_def bindings_ok_def raw_of_def demo_payload_def)


text \<open>
  Claim C4, amended. Let the runtime keep its contracts on this payload (base64 of the
  serialised payload and of its signature decodes to what was encoded, and parsing the
  serialised payload gives the payload back). For every payload whose \<open>roomId\<close>,
  \<open>peerId\<close> and \<open>jti\<close> are non-empty strings and whose \<open>iat\<close> and \<open>exp\<close> are
  non-zero, with \<open>now < exp\<close> and \<open>iat \<le> now + 30\<close>, the bindings in order and the
  \<open>jti\<close> not live in the nonce table when it is to be consumed, verifying the signed
  token at \<open>now\<close> succeeds and returns the payload field for field.
\<close>

theorem sign_verify_roundtrip:
  assumes "base64_contract rt (json_stringify rt p)"
    and "base64_contract rt (hmac_sha256 rt (base64urlEncode rt (json_stringify rt p)))"
    and "json_parse rt (json_stringify rt p) = Inr (raw_of p)"
    and "roomId p \<noteq> []" and "peerId p \<noteq> []" and "jti p \<noteq> []"
    and "iat p \<noteq> 0" and "exp p \<noteq> 0"
    and "now = now_of clock opts" and "now < exp p" and "iat p \<le> now + 30"
    and "bindings_ok opts (raw_of p)"
    and "\<not> (consumeJti opts \<and> live u (jti p) now)"
  shows "fst (verifyToken rt clock (signToken rt p) opts u) = Inr (raw_of p)"
proof -
  have opened: "open_token rt (signToken rt p) = Inr (raw_of p)"
    using assms(1-3) by (rule open_signed)
  have fields: "fields_ok (raw_of p)"
    using assms(4-8) by (simp add: fields_ok_def raw_of_def)
  have "fst (check_payload now opts u (raw_of p)) = Inr (raw_of p)"
    using fields assms(10-13) by (intro check_payload_accept) (simp_all add: raw_of_def)
  then show ?thesis using opened assms(9) by (simp add: verifyToken_opened)
qed

theorem sign_verify_roundtrip_witness:
  "fst (verifyToken demo_rt 1005 (signToken demo_rt demo_payload) (no_opts\<lparr>consumeJti := True\<rparr>) Map.empty)
     = Inr (raw_of demo_payload)"
  using sign_verify_roundtrip [OF demo_contract_payload demo_contract_sig demo_json,
      of 1005 1005 "no_opts\<lparr>consumeJti := True\<rparr>" Map.empty]
  by (simp add: now_of_def no_opts_def bindings_ok_def live_def demo_payload_def)

text \<open>
  Claim C4 as written asks only that \<open>roomId\<close>, \<open>peerId\<close> and \<open>jti\<close> be strings. A
  payload whose \<open>roomId\<close> is the empty string meets every condition of the claim, on a
  runtime that keeps its contracts, and its signed token is refused with \<open>no_roomId\<close>.
\<close>

theorem roundtrip_empty_roomId_counterexample:
  "iat nameless_payload \<noteq> 0 \<and> exp nameless_payload \<noteq> 0 \<and> 1005 < exp nameless_payload \<and>
   iat nameless_payload \<le> 1005 + 30 \<and> \<not> live Map.empty (jti nameless_payload) 1005 \<and>
   base64_contract demo_rt (json_stringify demo_rt nameless_payload) \<and>
   base64_contract demo_rt
     (hmac_sha256 demo_rt (base64urlEncode demo_rt (json_stringify demo_rt nameless_payload))) \<and>
   json_parse demo_rt (json_stringify demo_rt nameless_payload) = Inr (raw_of nameless_payload) \<and>
   fst (verifyToken demo_rt 1005 (signToken demo_rt nameless_payload)
          (no_opts\<lparr>consumeJti := True\<rparr>) Map.empty) = Inl no_roomId"
proof -
  have c1: "base64_contract demo_rt (json_stringify demo_rt nameless_payload)"
    by (simp add: base64_contract_def wf_base64_def b64_alphabet_def nameless_payload_def demo_defs)
  have c2: "base64_contract demo_rt
     (hmac_sha256 demo_rt (base64urlEncode demo_rt (json_stringify demo_rt nameless_payload)))"
    by (simp add: base64_contract_def wf_base64_def b64_alphabet_def base64urlEncode_def
        replace_all_def remove_all_def nameless_payload_def demo_defs)
  have c3: "json_parse demo_rt (json_stringify demo_rt nameless_payload) = Inr (raw_of nameless_payload)"
    by (simp add: raw_of_def nameless_payload_def demo_defs)
  have "open_token demo_rt (signToken demo_rt nameless_payload) = Inr (raw_of nameless_payload)"
    using c1 c2 c3 by (rule open_signed)
  then have "fst (verifyToken demo_rt 1005 (signToken demo_rt nameless_payload)
          (no_opts\<lparr>consumeJti := True\<rparr>) Map.empty) = Inl no_roomId"
    by (simp add: verifyToken_opened check_payload_def raw_of_def nameless_payload_def)
  with c1 c2 c3 show ?thesis by (simp add: nameless_payload_def live_def)
qed


lemma verify_all_keeps_live:
  "live u j now \<Longrightarrow> \<forall>(ck, t, os) \<in> set calls. now_of ck os \<le> now \<Longrightarrow>
   verify_all rt calls u j = u j"
proof (induction calls arbitrary: u)
  case Nil
  then show ?case by simp
next
  case (Cons call calls)
  obtain ck t os where call: "call = (ck, t, os)" by (cases call) auto
  from Cons.prems have le: "now_of ck os \<le> now" by (simp add: call)
  have keep: "snd (verifyToken rt ck t os u) j = u j"
    using Cons.prems(1) le by (rule verifyToken_keeps_live)
  with Cons.prems(1) have "live (snd (verifyToken rt ck t os u)) j now" by (simp add: live_def)
  from Cons.IH [OF this] Cons.prems(2) keep show ?case by (simp add: call)
qed

lemma consumed_is_live:
  assumes "verifyToken rt clock token opts u0 = (Inr p, u1)" and "consumeJti opts"
    and "now < num_of (rExp p)"
  shows "live u1 (str_of (rJti p)) now"
proof -
  from assms(1) have acc: "fst (verifyToken rt clock token opts u0) = Inr p" by simp
  from verifyToken_sound [OF acc] have opened: "open_token rt token = Inr p" by simp
  from acc opened have "fst (check_payload (now_of clock opts) opts u0 p) = Inr p"
    by (simp add: verifyToken_opened)
  from check_payload_records [OF this assms(2)] assms(1) opened
  have "u1 (str_of (rJti p)) = Some (num_of (rExp p))" by (simp add: verifyToken_opened)
  with assms(3) show ?thesis by (simp add: live_def)
qed


lemma open_token_nonempty: "open_token rt token = Inr p \<Longrightarrow> token \<noteq> []"
  by (auto simp: open_token_def)

lemma gate_rejects:
  assumes "token \<noteq> []" and "fst (verifyToken rt clock token (no_opts\<lparr>consumeJti := True\<rparr>) u) = Inl e"
  shows "fst (on_connection rt clock ws token u) = None \<and>
         snd (snd (on_connection rt clock ws token u)) =
           [CloseWs ws (Some 1008)
              (Some (''invalid token: '' @ (if message e = [] then ''unknown'' else message e)))]"
proof -
  obtain r u' where v: "verifyToken rt clock token (no_opts\<lparr>consumeJti := True\<rparr>) u = (r, u')"
    by (cases "verifyToken rt clock token (no_opts\<lparr>consumeJti := True\<rparr>) u") auto
  with assms(2) have "r = Inl e" by simp
  with v assms(1) show ?thesis by (simp add: on_connection_def)
qed

text \<open>
  Claim C5. Let a verification with \<open>consumeJti\<close> accept a payload \<open>p\<close>, and let any
  verifications follow, none at a time later than \<open>now2\<close>. If the \<open>exp\<close> recorded for
  the \<open>jti\<close> of \<open>p\<close> is still in the future at \<open>now2\<close>, then every verification at
  \<open>now2\<close> with \<open>consumeJti\<close> of a token that carries the same \<open>jti\<close> and is valid in
  everything else fails with \<open>replayed\<close>, and no verification at \<open>now2\<close> with
  \<open>consumeJti\<close> accepts a payload with that \<open>jti\<close>. At the server: when the first
  verification was the one of a connection and the clock has not gone back, a second
  connection with the same token is closed with code 1008, and the reason names the
  failure (\<open>replayed\<close>, or \<open>expired\<close> once the token has expired).
\<close>

theorem replay_rejected:
  assumes first: "verifyToken rt clock1 token opts1 u0 = (Inr p, u1)" and consumed: "consumeJti opts1"
    and between: "\<forall>(ck, t, os) \<in> set calls. now_of ck os \<le> now2"
  shows "(now2 < num_of (rExp p) \<longrightarrow>
           (\<forall>token2 clock2 opts2 p2.
              now_of clock2 opts2 = now2 \<and> consumeJti opts2 \<and> open_token rt token2 = Inr p2 \<and>
              rJti p2 = rJti p \<and> fields_ok p2 \<and> now2 < num_of (rExp p2) \<and>
              num_of (rIat p2) \<le> now2 + 30 \<and> bindings_ok opts2 p2 \<longrightarrow>
              fst (verifyToken rt clock2 token2 opts2 (verify_all rt calls u1)) = Inl replayed)) \<and>
         (now2 < num_of (rExp p) \<longrightarrow>
           (\<forall>token2 clock2 opts2 q.
              now_of clock2 opts2 = now2 \<and> consumeJti opts2 \<and>
              fst (verifyToken rt clock2 token2 opts2 (verify_all rt calls u1)) = Inr q \<longrightarrow>
              str_of (rJti q) \<noteq> str_of (rJti p))) \<and>
         (opts1 = no_opts\<lparr>consumeJti := True\<rparr> \<and> clock1 \<le> now2 \<longrightarrow>
            fst (on_connection rt now2 ws token (verify_all rt calls u1)) = None \<and>
            snd (snd (on_connection rt now2 ws token (verify_all rt calls u1))) =
              [CloseWs ws (Some 1008)
                 (Some (''invalid token: '' @
                        (if now2 < num_of (rExp p) then ''replayed'' else ''expired'')))])"
proof (intro conjI impI allI)
  fix token2 clock2 opts2 p2
  assume future: "now2 < num_of (rExp p)"
    and later: "now_of clock2 opts2 = now2 \<and> consumeJti opts2 \<and> open_token rt token2 = Inr p2 \<and>
              rJti p2 = rJti p \<and> fields_ok p2 \<and> now2 < num_of (rExp p2) \<and>
              num_of (rIat p2) \<le> now2 + 30 \<and> bindings_ok opts2 p2"
  have "live u1 (str_of (rJti p)) now2"
    using first consumed future by (rule consumed_is_live)
  then have "live (verify_all rt calls u1) (str_of (rJti p2)) now2"
    using verify_all_keeps_live [OF _ between, of u1 "str_of (rJti p)" rt] later
    by (simp add: live_def)
  then have "fst (check_payload now2 opts2 (verify_all rt calls u1) p2) = Inl replayed"
    using later by (intro check_payload_replayed) simp_all
  then show "fst (verifyToken rt clock2 token2 opts2 (verify_all rt calls u1)) = Inl replayed"
    using later by (simp add: verifyToken_opened)
next
  fix token2 clock2 opts2 q
  assume future: "now2 < num_of (rExp p)"
    and later: "now_of clock2 opts2 = now2 \<and> consumeJti opts2 \<and>
              fst (verifyToken rt clock2 token2 opts2 (verify_all rt calls u1)) = Inr q"
  have "live u1 (str_of (rJti p)) now2"
    using first consumed future by (rule consumed_is_live)
  then have alive: "live (verify_all rt calls u1) (str_of (rJti p)) now2"
    using verify_all_keeps_live [OF _ between, of u1 "str_of (rJti p)" rt]
    by (simp add: live_def)
  from later verifyToken_sound [of rt clock2 token2 opts2 "verify_all rt calls u1" q]
  have opened: "open_token rt token2 = Inr q" by simp
  show "str_of (rJti q) \<noteq> str_of (rJti p)"
  proof
    assume "str_of (rJti q) = str_of (rJti p)"
    with alive have "live (verify_all rt calls u1) (str_of (rJti q)) now2" by simp
    with later have "fst (check_payload now2 opts2 (verify_all rt calls u1) q) \<noteq> Inr q"
      by (intro check_payload_refuses_live) simp_all
    with later opened show False by (auto simp: verifyToken_opened)
  qed
next
  assume gate: "opts1 = no_opts\<lparr>consumeJti := True\<rparr> \<and> clock1 \<le> now2"
  let ?g = "no_opts\<lparr>consumeJti := True\<rparr>"
  let ?u = "verify_all rt calls u1"
  from first have acc: "fst (verifyToken rt clock1 token opts1 u0) = Inr p" by simp
  from verifyToken_sound [OF acc] gate
  have opened: "open_token rt token = Inr p" and fields: "fields_ok p"
    and iat: "num_of (rIat p) \<le> now2 + 30" and binds: "bindings_ok ?g p"
    by (simp_all add: now_of_def no_opts_def)
  have now2: "now_of now2 ?g = now2" by (simp add: now_of_def no_opts_def)
  have "fst (verifyToken rt now2 token ?g ?u) =
          Inl (if now2 < num_of (rExp p) then replayed else expired)"
  proof (cases "now2 < num_of (rExp p)")
    case True
    have "live u1 (str_of (rJti p)) now2"
      using first consumed True by (rule consumed_is_live)
    then have "live ?u (str_of (rJti p)) now2"
      using verify_all_keeps_live [OF _ between, of u1 "str_of (rJti p)" rt]
      by (simp add: live_def)
    then have "fst (check_payload now2 ?g ?u p) = Inl replayed"
      using fields True iat binds by (intro check_payload_replayed) (simp_all add: no_opts_def)
    with True opened now2 show ?thesis by (simp add: verifyToken_opened)
  next
    case False
    then have "check_payload now2 ?g ?u p = (Inl expired, ?u)"
      using fields by (intro check_payload_expired) simp_all
    with False opened now2 show ?thesis by (simp add: verifyToken_opened)
  qed
  from gate_rejects [OF open_token_nonempty [OF opened] this, of ws]
  show "fst (on_connection rt now2 ws token ?u) = None"
    and "snd (snd (on_connection rt now2 ws token ?u)) =
              [CloseWs ws (Some 1008)
                 (Some (''invalid token: '' @
                        (if now2 < num_of (rExp p) then ''replayed'' else ''expired'')))]"
    by simp_all
qed

lemma demo_first:
  "verifyToken demo_rt 1005 demo_token (no_opts\<lparr>consumeJti := True\<rparr>) Map.empty =
     (Inr (raw_of demo_payload), [''j1'' \<mapsto> 1060])"
  by (simp add: verifyToken_opened demo_open check_payload_def raw_of_def demo_payload_def
      now_of_def no_opts_def cleanupUsedJti_def)

theorem replay_rejected_witness:
  "fst (verifyToken demo_rt 1010 demo_token (no_opts\<lparr>consumeJti := True\<rparr>)
          (verify_all demo_rt [(1007, ''x.y'', no_opts)] [''j1'' \<mapsto> 1060])) = Inl replayed \<and>
   snd (snd (on_connection demo_rt 1010 7 demo_token
          (verify_all demo_rt [(1007, ''x.y'', no_opts)] [''j1'' \<mapsto> 1060]))) =
     [CloseWs 7 (Some 1008) (Some ''invalid token: replayed'')]"
  using replay_rejected [OF demo_first, of "[(1007, ''x.y'', no_opts)]" 1010 7]
    demo_open demo_fields
  by (simp add: now_of_def no_opts_def bindings_ok_def raw_of_def demo_payload_def)


section \<open>Properties of the server\<close>

lemmas session_defs = conn1_def conn2_def engine_ok_def no_payload_def join_req_def transport_req_def
  produce_req_def consume_req_def

lemmas helper_defs = deref_def store_def put_room_def members_def roomProducerList_def roomPeerList_def
  broadcastRoom_def broadcastPeerJoined_def broadcastPeerLeft_def new_room_def getRoom_def
  requireRoomIdMatch_def requireBoundIdentity_def fresh_addr_def find_session_def
  str_or_empty_def trim_def is_space_def session_data_def enter_room_def

lemma joined_eq:
  "joined =
     \<lparr> heap =
         [(1, \<lparr> c_sessionId = ''s1'', c_peerId = ''p1'', c_ws = 1, c_roomId = Some ''r1'',
                c_send = None, c_recv = None, c_producers = [], c_consumers = [],
                c_cleanupTimer = False, c_disconnectedAt = None \<rparr>),
          (2, \<lparr> c_sessionId = ''s2'', c_peerId = ''p2'', c_ws = 2, c_roomId = Some ''r1'',
                c_send = None, c_recv = None, c_producers = [], c_consumers = [],
                c_cleanupTimer = False, c_disconnectedAt = None \<rparr>)],
       sessions = [(''s1'', 1), (''s2'', 2)],
       rooms = [(''r1'', \<lparr> r_id = ''r1'', r_peers = [(''p1'', 1), (''p2'', 2)],
                           r_producers = [], r_speaking = [] \<rparr>)] \<rparr>"
  by (simp add: joined_def on_message_def handle_def join_def adopt_def empty_world_def
      session_defs helper_defs Let_def)

lemma sending_eq:
  "sending =
     \<lparr> heap =
         [(1, \<lparr> c_sessionId = ''s1'', c_peerId = ''p1'', c_ws = 1, c_roomId = Some ''r1'',
                c_send = Some ''T1'', c_recv = None, c_producers = [], c_consumers = [],
                c_cleanupTimer = False, c_disconnectedAt = None \<rparr>),
          (2, \<lparr> c_sessionId = ''s2'', c_peerId = ''p2'', c_ws = 2, c_roomId = Some ''r1'',
                c_send = None, c_recv = None, c_producers = [], c_consumers = [],
                c_cleanupTimer = False, c_disconnectedAt = None \<rparr>)],
       sessions = [(''s1'', 1), (''s2'', 2)],
       rooms = [(''r1'', \<lparr> r_id = ''r1'', r_peers = [(''p1'', 1), (''p2'', 2)],
                           r_producers = [], r_speaking = [] \<rparr>)] \<rparr>"
  by (simp add: sending_def joined_eq on_message_def handle_def located_def createTransport_def
      session_defs helper_defs Let_def)

lemma produce_step:
  "on_message sending conn1 (produce_req ''s1'') engine_ok =
     (\<lparr> heap =
         [(1, \<lparr> c_sessionId = ''s1'', c_peerId = ''p1'', c_ws = 1, c_roomId = Some ''r1'',
                c_send = Some ''T1'', c_recv = None,
                c_producers = [(''P1'', \<lparr> producer_id = ''P1'', producer_kind = audio \<rparr>)],
                c_consumers = [], c_cleanupTimer = False, c_disconnectedAt = None \<rparr>),
          (2, \<lparr> c_sessionId = ''s2'', c_peerId = ''p2'', c_ws = 2, c_roomId = Some ''r1'',
                c_send = None, c_recv = None, c_producers = [], c_consumers = [],
                c_cleanupTimer = False, c_disconnectedAt = None \<rparr>)],
       sessions = [(''s1'', 1), (''s2'', 2)],
       rooms = [(''r1'', \<lparr> r_id = ''r1'', r_peers = [(''p1'', 1), (''p2'', 2)],
                  r_producers = [(''P1'', \<lparr> rp_peerId = ''p1'',
                     rp_producer = \<lparr> producer_id = ''P1'', producer_kind = audio \<rparr> \<rparr>)],
                  r_speaking = [] \<rparr>)] \<rparr>,
      [Send 1 (Response (JNum 3) True (DId ''P1''))])"
  by (simp add: sending_eq on_message_def handle_def located_def produce_def
      session_defs helper_defs Let_def)

lemmas producing_eq = producing_def [unfolded produce_step fst_conv]

text \<open>
  Claim C1, on the gated server. The claim asks that a successful \<open>produce\<close> attach an
  audio producer to the level observer, broadcast \<open>newProducer\<close> to the other members of
  the room and answer \<open>{producerId}\<close>. In the session above the room has the members
  \<open>p1\<close> and \<open>p2\<close>, and the successful audio \<open>produce\<close> of \<open>p1\<close> emits one action only:
  the answer \<open>{id: "P1"}\<close> to the socket of \<open>p1\<close>. Nothing is sent to \<open>p2\<close> and the
  observer is not called.
\<close>

theorem gated_produce_is_silent:
  "map_option (roomPeerList sending) (map_of (rooms sending) ''r1'') = Some [''p1'', ''p2''] \<and>
   snd (on_message sending conn1 (produce_req ''s1'') engine_ok) =
     [Send 1 (Response (JNum 3) True (DId ''P1''))]"
  by (simp add: produce_step) (simp add: sending_eq helper_defs)

text \<open>
  The handler of the server without the gate, on the same state and request: the
  producer is attached to the observer, the answer is \<open>{producerId: "P1"}\<close>, and \<open>p2\<close>
  receives \<open>newProducer\<close>.
\<close>

lemma ungated_produce_announces:
  "snd (snd (produce_ungated sending conn1 (produce_req ''s1'')
               (Inr \<lparr> producer_id = ''P1'', producer_kind = audio \<rparr>) 1 (the (deref sending 1)))) =
     [Engine (AddToObserver ''r1'' ''P1''),
      Send 1 (Response (JNum 3) True (DProducerId ''P1'')),
      Send 2 (NewProducer ''P1'' ''p1'' audio)]"
  by (simp add: sending_eq produce_ungated_def session_defs helper_defs Let_def)

text \<open>
  Claim C7, on the gated server. The claim asks that \<open>createTransport\<close> close the
  transport the peer already holds in that direction before it installs the new one.
  Here \<open>p1\<close> holds the send transport \<open>T1\<close> and asks for a send transport again: the
  only action is the answer that carries \<open>T2\<close>, the slot now holds \<open>T2\<close>, and no call
  closes \<open>T1\<close>.
\<close>

theorem gated_createTransport_keeps_old_open:
  "map_option c_send (deref sending 1) = Some (Some ''T1'') \<and>
   snd (on_message sending conn1 (transport_req ''s1'' ''send'') (engine_ok\<lparr> e_transport := Inr ''T2'' \<rparr>)) =
     [Send 1 (Response (JNum 2) True (DTransport ''T2''))] \<and>
   map_option c_send
     (deref (fst (on_message sending conn1 (transport_req ''s1'' ''send'')
                    (engine_ok\<lparr> e_transport := Inr ''T2'' \<rparr>))) 1) = Some (Some ''T2'')"
  by (simp add: sending_eq on_message_def handle_def located_def createTransport_def
      session_defs helper_defs Let_def)

text \<open>
  The handler of the server without the gate, on the same state and request, closes
  \<open>T1\<close> first.
\<close>

lemma ungated_createTransport_closes_old:
  "snd (snd (createTransport_ungated sending conn1 (transport_req ''s1'' ''send'')
               (engine_ok\<lparr> e_transport := Inr ''T2'' \<rparr>) 1 (the (deref sending 1)))) =
     [Engine (CloseTransport ''T1''), Send 1 (Response (JNum 2) True (DTransport ''T2''))]"
  by (simp add: sending_eq createTransport_ungated_def session_defs helper_defs Let_def)

text \<open>
  Claim C3. The claim asks that in every reachable state each entry of a room's producer
  index name a member of the room that holds the producer in its own map. After the
  session above \<open>p1\<close> holds \<open>P1\<close>; then the transport of \<open>p1\<close> closes and the
  \<open>transportclose\<close> handler of the producer runs: the index of room \<open>r1\<close> still has
  the entry of \<open>P1\<close> under the peer id \<open>p1\<close>, whose record is at address 1 and is a
  member of the room, and the producer map of that record is now empty.
\<close>

theorem transportclose_leaves_index_entry:
  "map_of (rooms (fst (on_producer_transportclose producing 1 ''P1''))) ''r1'' =
     Some \<lparr> r_id = ''r1'', r_peers = [(''p1'', 1), (''p2'', 2)],
            r_producers = [(''P1'', \<lparr> rp_peerId = ''p1'',
               rp_producer = \<lparr> producer_id = ''P1'', producer_kind = audio \<rparr> \<rparr>)],
            r_speaking = [] \<rparr> \<and>
   map_option c_peerId (deref (fst (on_producer_transportclose producing 1 ''P1'')) 1) = Some ''p1'' \<and>
   map_option c_producers (deref producing 1) =
     Some [(''P1'', \<lparr> producer_id = ''P1'', producer_kind = audio \<rparr>)] \<and>
   map_option c_producers (deref (fst (on_producer_transportclose producing 1 ''P1'')) 1) = Some []"
  by (simp add: producing_eq on_producer_transportclose_def helper_defs)


text \<open>
  Claim C8 as written promises \<open>cannot consume self\<close> for every \<open>consume\<close> of a
  producer that the requesting peer owns. Here \<open>p1\<close> owns \<open>P1\<close>, which is in the index of
  its room, and has no receive transport: the answer is \<open>recv transport not ready\<close>.
\<close>

theorem self_consume_without_recv_counterexample:
  "map_option r_producers (map_of (rooms producing) ''r1'') =
     Some [(''P1'', \<lparr> rp_peerId = ''p1'',
              rp_producer = \<lparr> producer_id = ''P1'', producer_kind = audio \<rparr> \<rparr>)] \<and>
   map_option (c_peerId \<circ> snd) (find_session producing ''s1'') = Some ''p1'' \<and>
   on_message producing conn1 (consume_req ''s1'' ''P1'') engine_ok =
     (producing, [Send 1 (Response (JNum 4) False (DError ''recv transport not ready''))])"
  by (simp add: producing_eq on_message_def handle_def located_def consume_def
      session_defs helper_defs Let_def)

text \<open>
  Claim C8, amended. A \<open>consume\<close> request that names a session of a peer whose room is
  the room bound by the socket's token, that has a receive transport, that carries
  \<open>rtpCapabilities\<close>, and whose \<open>producerId\<close> is in the index of that room under the
  peer's own id, is answered by the failure \<open>cannot consume self\<close>, whatever the engine
  would answer to \<open>canConsume\<close> (the engine's answers \<open>er\<close> are arbitrary), and the state
  is left as it was.
\<close>

theorem self_consume_rejected:
  assumes "q_type req = JStr ''consume''"
    and "trim (str_or_empty (q_sessionId (q_payload req))) = sid" and "sid \<noteq> []"
    and "find_session w sid = Some (a, peer)"
    and "c_roomId peer = Some k" and "k \<noteq> []" and "requireRoomIdMatch c k = Inr k'"
    and "map_of (rooms w) k = Some room"
    and "c_recv peer \<noteq> None"
    and "truthy (q_rtpCapabilities (q_payload req))"
    and "trim (str_or_empty (q_producerId (q_payload req))) = pid" and "pid \<noteq> []"
    and "map_of (r_producers room) pid = Some entry"
    and "rp_peerId entry = c_peerId peer"
  shows "on_message w c req er =
           (w, [Send (sock c) (Response (q_requestId req) False (DError ''cannot consume self''))])"
proof -
  have "located w c req er = consume w c req er a peer"
    using assms(1-7) by (simp add: located_def Let_def)
  moreover have "consume w c req er a peer = (Inl ''cannot consume self'', w, [])"
    using assms(5,6,8-14) by (simp add: consume_def Let_def)
  ultimately show ?thesis using assms(1) by (simp add: on_message_def handle_def)
qed

lemma receiving_eq:
  "receiving =
     \<lparr> heap =
         [(1, \<lparr> c_sessionId = ''s1'', c_peerId = ''p1'', c_ws = 1, c_roomId = Some ''r1'',
                c_send = Some ''T1'', c_recv = Some ''T2'',
                c_producers = [(''P1'', \<lparr> producer_id = ''P1'', producer_kind = audio \<rparr>)],
                c_consumers = [], c_cleanupTimer = False, c_disconnectedAt = None \<rparr>),
          (2, \<lparr> c_sessionId = ''s2'', c_peerId = ''p2'', c_ws = 2, c_roomId = Some ''r1'',
                c_send = None, c_recv = None, c_producers = [], c_consumers = [],
                c_cleanupTimer = False, c_disconnectedAt = None \<rparr>)],
       sessions = [(''s1'', 1), (''s2'', 2)],
       rooms = [(''r1'', \<lparr> r_id = ''r1'', r_peers = [(''p1'', 1), (''p2'', 2)],
                  r_producers = [(''P1'', \<lparr> rp_peerId = ''p1'',
                     rp_producer = \<lparr> producer_id = ''P1'', producer_kind = audio \<rparr> \<rparr>)],
                  r_speaking = [] \<rparr>)] \<rparr>"
  by (simp add: receiving_def producing_eq on_message_def handle_def located_def createTransport_def
      session_defs helper_defs Let_def)

theorem self_consume_rejected_witness:
  "on_message receiving conn1 (consume_req ''s1'' ''P1'') engine_ok =
     (receiving, [Send 1 (Response (JNum 4) False (DError ''cannot consume self''))])"
  using self_consume_rejected [of "consume_req ''s1'' ''P1''" "''s1''" receiving 1
      "the (deref receiving 1)" "''r1''" conn1 "''r1''" "the (map_of (rooms receiving) ''r1'')"
      "''P1''" "the (map_of (r_producers (the (map_of (rooms receiving) ''r1''))) ''P1'')" engine_ok]
  by (simp add: receiving_eq session_defs helper_defs)


lemma requireRoomIdMatch_cong:
  "trim (tokenRoomId c1) = trim (tokenRoomId c2) \<Longrightarrow>
   requireRoomIdMatch c2 r = requireRoomIdMatch c1 r"
  by (simp add: requireRoomIdMatch_def)

lemma createTransport_socket:
  "same_but_socket (sock c2) (createTransport w c1 req er a peer) (createTransport w c2 req er a peer)"
  by (simp add: same_but_socket_def createTransport_def Let_def split: option.splits sum.splits)

lemma connectTransport_socket:
  "same_but_socket (sock c2) (connectTransport w c1 req er a peer) (connectTransport w c2 req er a peer)"
  by (simp add: same_but_socket_def connectTransport_def Let_def split: option.splits sum.splits)

lemma produce_socket:
  "same_but_socket (sock c2) (produce w c1 req er a peer) (produce w c2 req er a peer)"
  by (simp add: same_but_socket_def produce_def Let_def split: option.splits sum.splits)

lemma pauseProducer_socket:
  "same_but_socket (sock c2) (pauseProducer w c1 req er a peer) (pauseProducer w c2 req er a peer)"
  by (simp add: same_but_socket_def pauseProducer_def Let_def split: option.splits sum.splits)

lemma resumeProducer_socket:
  "same_but_socket (sock c2) (resumeProducer w c1 req er a peer) (resumeProducer w c2 req er a peer)"
  by (simp add: same_but_socket_def resumeProducer_def Let_def split: option.splits sum.splits)

lemma consume_socket:
  "same_but_socket (sock c2) (consume w c1 req er a peer) (consume w c2 req er a peer)"
  by (simp add: same_but_socket_def consume_def Let_def split: option.splits sum.splits)

lemma pauseConsumer_socket:
  "same_but_socket (sock c2) (pauseConsumer w c1 req er a peer) (pauseConsumer w c2 req er a peer)"
  by (simp add: same_but_socket_def pauseConsumer_def Let_def split: option.splits sum.splits)

lemma resumeConsumer_socket:
  "same_but_socket (sock c2) (resumeConsumer w c1 req er a peer) (resumeConsumer w c2 req er a peer)"
  by (simp add: same_but_socket_def resumeConsumer_def Let_def split: option.splits sum.splits)

lemmas handler_socket = createTransport_socket connectTransport_socket produce_socket
  pauseProducer_socket resumeProducer_socket consume_socket pauseConsumer_socket
  resumeConsumer_socket

lemma located_socket:
  assumes "trim (tokenRoomId c1) = trim (tokenRoomId c2)"
  shows "same_but_socket (sock c2) (located w c1 req er) (located w c2 req er)"
proof -
  have rm: "\<And>r. requireRoomIdMatch c2 r = requireRoomIdMatch c1 r"
    using assms by (rule requireRoomIdMatch_cong)
  show ?thesis
    unfolding located_def Let_def rm
    by (auto simp: handler_socket split: option.splits sum.splits)
       (simp_all add: same_but_socket_def)
qed


text \<open>
  Claim C10. Take a request of a type other than \<open>join\<close>, \<open>resumeSession\<close>,
  \<open>listProducers\<close> and \<open>getRoomProducers\<close>, and two sockets whose tokens bind the same
  room; nothing is asked of the peer id and the session id their tokens bind. Sent on
  either socket, the request leaves the same state behind (the same peers with the same
  transports, producers and consumers) and emits the same actions, but for the socket
  its response is addressed to.
\<close>

theorem same_session_any_socket:
  assumes "trim (tokenRoomId c1) = trim (tokenRoomId c2)"
    and "q_type req \<noteq> JStr ''join''" and "q_type req \<noteq> JStr ''resumeSession''"
    and "q_type req \<noteq> JStr ''listProducers''" and "q_type req \<noteq> JStr ''getRoomProducers''"
  shows "fst (on_message w c2 req er) = fst (on_message w c1 req er) \<and>
         snd (on_message w c2 req er) = map (redirect (sock c2)) (snd (on_message w c1 req er))"
proof -
  have h: "handle w c1 req er = located w c1 req er" "handle w c2 req er = located w c2 req er"
    using assms(2-5) by (simp_all add: handle_def)
  obtain r w1 acts where l1: "located w c1 req er = (r, w1, acts)"
    by (cases "located w c1 req er") auto
  from located_socket [OF assms(1), of w req er] l1
  have l2: "located w c2 req er = (r, w1, map (redirect (sock c2)) acts)"
    by (cases "located w c2 req er") (simp add: same_but_socket_def)
  show ?thesis
    by (cases r) (simp_all add: on_message_def h l1 l2)
qed

theorem same_session_any_socket_witness:
  "on_message sending conn2 (produce_req ''s1'') engine_ok =
     (producing, [Send 2 (Response (JNum 3) True (DId ''P1''))])"
proof -
  have "fst (on_message sending conn2 (produce_req ''s1'') engine_ok) = producing \<and>
        snd (on_message sending conn2 (produce_req ''s1'') engine_ok) =
          [Send 2 (Response (JNum 3) True (DId ''P1''))]"
    using same_session_any_socket [of conn1 conn2 "produce_req ''s1''" sending engine_ok]
    by (simp add: produce_step producing_def) (simp add: session_defs)
  then show ?thesis by (simp add: prod_eq_iff)
qed


lemma benign_filters:
  assumes "list_all (benign s) acts"
  shows "filter is_response acts = []" and "filter (closes_socket s) acts = []"
    and "filter closes_1008 acts = []"
    and "list_all (\<lambda>a. \<not> closes_socket s a \<and> \<not> closes_1008 a \<and> \<not> attaches a) acts"
    and "filter attaches acts = []"
  using assms by (induction acts) (auto simp: benign_def)

lemma benign_broadcast:
  assumes "\<not> is_response (Send 0 m)"
  shows "list_all (benign s) (broadcastRoom w room m ex)"
proof -
  have "benign s (Send x m)" for x
    using assms by (cases m) (simp_all add: benign_def)
  then show ?thesis by (simp add: broadcastRoom_def list_all_iff)
qed

lemma benign_close_media: "list_all (benign s) (close_media peer)"
  by (auto simp: close_media_def list_all_iff benign_def split: option.splits)

lemma benign_resetPeerMedia_loop:
  "list_all (benign s) (snd (resetPeerMedia_loop w pid entries room))"
proof (induction entries arbitrary: room)
  case Nil
  then show ?case by simp
next
  case (Cons e entries)
  obtain k info where e: "e = (k, info)" by (cases e) auto
  show ?case
    using Cons.IH
    by (simp add: e Let_def case_prod_beta benign_broadcast) (simp add: benign_def)
qed


lemma benign_destroyPeer_loop:
  "list_all (benign s) (snd (destroyPeer_loop w pid entries room))"
proof (induction entries arbitrary: room)
  case Nil
  then show ?case by simp
next
  case (Cons e entries)
  obtain k info where e: "e = (k, info)" by (cases e) auto
  show ?case
    using Cons.IH
    by (simp add: e Let_def case_prod_beta benign_broadcast)
qed

lemma benign_resetPeerMedia: "list_all (benign s) (snd (resetPeerMedia w a))"
  by (simp add: resetPeerMedia_def Let_def case_prod_beta benign_close_media
      benign_resetPeerMedia_loop split: option.splits)

lemma benign_destroyPeer: "list_all (benign s) (snd (destroyPeer w a))"
  by (simp add: destroyPeer_def Let_def case_prod_beta benign_close_media broadcastPeerLeft_def
      benign_broadcast benign_destroyPeer_loop split: option.splits)
     (simp add: benign_def)

lemma benign_adopt: "list_all (benign (sock c)) (snd (snd (adopt w c sid pid)))"
  by (simp add: adopt_def Let_def case_prod_beta benign_resetPeerMedia split: option.splits)
     (simp add: benign_def)

lemma enter_room_silent: "snd (snd (enter_room w a peer k er)) = []"
  by (simp add: enter_room_def Let_def split: sum.splits prod.splits)


lemma adopt_benignD: "adopt w c sid pid = (r, w1, a1) \<Longrightarrow> list_all (benign (sock c)) a1"
  using benign_adopt [of c w sid pid] by simp

lemma enter_room_silentD: "enter_room w a peer k er = (r, w2, a2) \<Longrightarrow> a2 = []"
  using enter_room_silent [of w a peer k er] by simp

lemma benign_peerJoined: "list_all (benign s) (broadcastPeerJoined w room pid)"
  by (simp add: broadcastPeerJoined_def benign_broadcast)

lemma tidy_threw: "list_all (benign (sock c)) acts \<Longrightarrow> tidy c req (Inl e, w, acts)"
  by (simp add: tidy_def benign_filters)

lemma tidy_answered:
  "list_all (benign (sock c)) pre \<Longrightarrow> list_all (benign (sock c)) post \<Longrightarrow>
   tidy c req (Inr v, w, pre @ Send (sock c) (Response (q_requestId req) ok d) # post)"
  by (simp add: tidy_def benign_filters)

lemma benign_welcome: "benign s (Send x (WelcomeSession a b c d))"
  by (simp add: benign_def)

lemma tidy_join: "tidy c req (join w c req er)"
  unfolding join_def Let_def
  by (auto split: sum.splits prod.splits option.splits
      dest!: adopt_benignD enter_room_silentD
      intro!: tidy_threw tidy_answered simp: benign_peerJoined benign_welcome)


lemma tidy_answered_later:
  "list_all (benign (sock c)) pre \<Longrightarrow> list_all (benign (sock c)) mid \<Longrightarrow>
   list_all (benign (sock c)) post \<Longrightarrow>
   tidy c req (Inr v, w, pre @ mid @ Send (sock c) (Response (q_requestId req) ok d) # post)"
  using tidy_answered [of c "pre @ mid" post req v w ok d] by simp

lemma tidy_resumeSession: "tidy c req (resumeSession w c req er)"
  unfolding resumeSession_def Let_def
  by (auto split: sum.splits prod.splits option.splits if_splits
      dest!: adopt_benignD enter_room_silentD
      intro!: tidy_threw tidy_answered tidy_answered_later simp: benign_peerJoined benign_welcome)

lemma tidy_listProducers: "tidy c req (listProducers w c req)"
  by (auto simp: listProducers_def tidy_def Let_def split: sum.splits option.splits)

lemma tidy_createTransport: "tidy c req (createTransport w c req er a peer)"
  by (auto simp: createTransport_def tidy_def Let_def split: sum.splits option.splits)

lemma tidy_connectTransport: "tidy c req (connectTransport w c req er a peer)"
  by (auto simp: connectTransport_def tidy_def Let_def split: sum.splits option.splits)

lemma tidy_produce: "tidy c req (produce w c req er a peer)"
  by (auto simp: produce_def tidy_def Let_def split: sum.splits option.splits)

lemma tidy_pauseProducer: "tidy c req (pauseProducer w c req er a peer)"
  by (auto simp: pauseProducer_def tidy_def Let_def split: sum.splits option.splits)

lemma tidy_resumeProducer: "tidy c req (resumeProducer w c req er a peer)"
  by (auto simp: resumeProducer_def tidy_def Let_def split: sum.splits option.splits)

lemma tidy_consume: "tidy c req (consume w c req er a peer)"
  by (auto simp: consume_def tidy_def Let_def split: sum.splits option.splits)

lemma tidy_pauseConsumer: "tidy c req (pauseConsumer w c req er a peer)"
  by (auto simp: pauseConsumer_def tidy_def Let_def split: sum.splits option.splits)

lemma tidy_resumeConsumer: "tidy c req (resumeConsumer w c req er a peer)"
  by (auto simp: resumeConsumer_def tidy_def Let_def split: sum.splits option.splits)

lemmas tidy_handlers = tidy_createTransport tidy_connectTransport tidy_produce tidy_pauseProducer
  tidy_resumeProducer tidy_consume tidy_pauseConsumer tidy_resumeConsumer

lemma tidy_located: "tidy c req (located w c req er)"
  unfolding located_def Let_def
  by (auto simp: tidy_handlers split: option.splits sum.splits) (auto simp: tidy_def)

lemma tidy_handle: "tidy c req (handle w c req er)"
  by (simp add: handle_def tidy_join tidy_resumeSession tidy_listProducers tidy_located)


lemma benign_volumes_loud: "list_all (benign s) (volumes_loud w room vols)"
  by (induction vols) (auto simp: benign_broadcast)

lemma benign_volumes_quiet: "list_all (benign s) (snd (volumes_quiet w active pids room))"
  by (induction pids arbitrary: room) (simp_all add: Let_def case_prod_beta benign_broadcast)

lemma benign_silence_loop: "list_all (benign s) (snd (silence_loop w pids room))"
  by (induction pids arbitrary: room) (simp_all add: Let_def case_prod_beta benign_broadcast)

lemma benign_on_volumes: "list_all (benign s) (snd (on_volumes w k vols))"
  by (simp add: on_volumes_def Let_def case_prod_beta benign_volumes_loud benign_volumes_quiet
      split: option.splits)

lemma benign_on_silence: "list_all (benign s) (snd (on_silence w k))"
  by (simp add: on_silence_def Let_def case_prod_beta benign_silence_loop split: option.splits)

lemma benign_on_grace_expired: "list_all (benign s) (snd (on_grace_expired w a))"
  by (simp add: on_grace_expired_def benign_destroyPeer split: option.splits)

lemma benign_engine_events:
  "list_all (benign s) (snd (on_producer_transportclose w a pid))"
  "list_all (benign s) (snd (on_consumer_transportclose w a cid))"
  "list_all (benign s) (snd (on_consumer_producerclose w a cid))"
  by (simp_all add: on_producer_transportclose_def on_consumer_transportclose_def
      on_consumer_producerclose_def benign_def split: option.splits)

lemma gate_cases:
  "(case fst (on_connection rt clock ws token u) of
      None \<Rightarrow> \<exists>reason. snd (snd (on_connection rt clock ws token u)) =
                          [CloseWs ws (Some 1008) (Some reason)]
    | Some cn \<Rightarrow>
        filter closes_1008 (snd (snd (on_connection rt clock ws token u))) = [] \<and>
        (\<exists>p. fst (verifyToken rt clock token (no_opts\<lparr>consumeJti := True\<rparr>) u) = Inr p))"
  by (auto simp: on_connection_def Let_def split: prod.splits sum.splits)

text \<open>
  Claim C9. For every message on an admitted socket (taken as parsed into type, request
  id and payload): when the handler throws with message \<open>e\<close>, the message handler
  leaves the handler's state and actions and adds the one reply
  \<open>{type: "response", requestId, ok: false, data: {error: e}}\<close>; in every case the
  actions hold exactly one response, addressed to the requesting socket under the
  request's id; no action closes the requesting socket; and no action is a close with
  code 1008. Neither is any action of the grace expiry, of the level observer's ticks or
  of the engine's close events. The token gate either rejects the socket, by one close
  with code 1008, or admits it, on a token that \<open>verifyToken\<close> accepted, with no such
  close.
\<close>

theorem handler_exceptions_become_replies:
  "(\<forall>e w1 acts. handle w c req er = (Inl e, w1, acts) \<longrightarrow>
      on_message w c req er =
        (w1, acts @ [Send (sock c) (Response (q_requestId req) False (DError e))]) \<and>
      filter is_response (snd (on_message w c req er)) =
        [Send (sock c) (Response (q_requestId req) False (DError e))]) \<and>
   (\<exists>ok d. filter is_response (snd (on_message w c req er)) =
              [Send (sock c) (Response (q_requestId req) ok d)]) \<and>
   filter (closes_socket (sock c)) (snd (on_message w c req er)) = [] \<and>
   filter closes_1008 (snd (on_message w c req er)) = [] \<and>
   filter closes_1008 (snd (on_grace_expired w a)) = [] \<and>
   filter closes_1008 (snd (on_volumes w k vols)) = [] \<and>
   filter closes_1008 (snd (on_silence w k)) = [] \<and>
   filter closes_1008 (snd (on_producer_transportclose w a pid)) = [] \<and>
   filter closes_1008 (snd (on_consumer_transportclose w a cid)) = [] \<and>
   filter closes_1008 (snd (on_consumer_producerclose w a cid)) = [] \<and>
   (case fst (on_connection rt clock ws token u) of
      None \<Rightarrow> \<exists>reason. snd (snd (on_connection rt clock ws token u)) =
                          [CloseWs ws (Some 1008) (Some reason)]
    | Some cn \<Rightarrow>
        filter closes_1008 (snd (snd (on_connection rt clock ws token u))) = [] \<and>
        (\<exists>p. fst (verifyToken rt clock token (no_opts\<lparr>consumeJti := True\<rparr>) u) = Inr p))"
proof -
  obtain r w1 acts where h: "handle w c req er = (r, w1, acts)"
    by (cases "handle w c req er") auto
  have t: "tidy c req (r, w1, acts)"
    using tidy_handle [of c req w er] by (simp add: h)
  have quiet: "list_all (\<lambda>a. \<not> closes_socket (sock c) a \<and> \<not> closes_1008 a \<and> \<not> attaches a) acts"
    using t by (simp add: tidy_def)
  then have nc: "filter (closes_socket (sock c)) acts = []" "filter closes_1008 acts = []"
    by (induction acts) auto
  have msg: "(\<forall>e w1 acts. handle w c req er = (Inl e, w1, acts) \<longrightarrow>
      on_message w c req er =
        (w1, acts @ [Send (sock c) (Response (q_requestId req) False (DError e))]) \<and>
      filter is_response (snd (on_message w c req er)) =
        [Send (sock c) (Response (q_requestId req) False (DError e))]) \<and>
   (\<exists>ok d. filter is_response (snd (on_message w c req er)) =
              [Send (sock c) (Response (q_requestId req) ok d)]) \<and>
   filter (closes_socket (sock c)) (snd (on_message w c req er)) = [] \<and>
   filter closes_1008 (snd (on_message w c req er)) = []"
  proof (cases r)
    case (Inl e)
    with t have "filter is_response acts = []" by (simp add: tidy_def)
    with Inl nc show ?thesis by (auto simp: on_message_def h)
  next
    case (Inr v)
    with t obtain ok d where
      "filter is_response acts = [Send (sock c) (Response (q_requestId req) ok d)]"
      by (auto simp: tidy_def)
    with Inr nc show ?thesis by (auto simp: on_message_def h)
  qed
  show ?thesis
    using msg gate_cases [of rt clock ws token u]
      benign_filters(3) [OF benign_on_grace_expired [of 0 w a]]
      benign_filters(3) [OF benign_on_volumes [of 0 w k vols]]
      benign_filters(3) [OF benign_on_silence [of 0 w k]]
      benign_filters(3) [OF benign_engine_events(1) [of 0 w a pid]]
      benign_filters(3) [OF benign_engine_events(2) [of 0 w a cid]]
      benign_filters(3) [OF benign_engine_events(3) [of 0 w a cid]]
    by (elim conjE) (intro conjI, assumption+)
qed

theorem handler_exceptions_become_replies_witness:
  "on_message joined conn1 (transport_req ''s1'' ''send'') (engine_ok\<lparr> e_transport := Inl ''no free port'' \<rparr>) =
     (joined, [Send 1 (Response (JNum 2) False (DError ''no free port''))])"
proof -
  have "handle joined conn1 (transport_req ''s1'' ''send'') (engine_ok\<lparr> e_transport := Inl ''no free port'' \<rparr>) =
          (Inl ''no free port'', joined, [])"
    by (simp add: joined_eq handle_def located_def createTransport_def session_defs helper_defs Let_def)
  with handler_exceptions_become_replies [of joined conn1 "transport_req ''s1'' ''send''"
      "engine_ok\<lparr> e_transport := Inl ''no free port'' \<rparr>"]
  show ?thesis by (simp add: session_defs)
qed


lemma set_update_subset: "set (AList.update k v al) \<subseteq> insert (k, v) (set al)"
  by (induction al) auto

lemma set_delete_subset: "set (AList.delete k al) \<subseteq> set al"
  by (auto simp: AList.delete_eq)

lemma keys_delete: "fst ` set (AList.delete k al) = fst ` set al - {k}"
  by (auto simp: AList.delete_eq)

lemma rooms_store [simp]: "rooms (store a c w) = rooms w"
  by (simp add: store_def)

lemma rooms_forget_session [simp]: "rooms (forget_session sid w) = rooms w"
  by (simp add: forget_session_def)

lemma indexed_store [simp]: "speaking_indexed (store a c w) = speaking_indexed w"
  by (simp add: speaking_indexed_def)

lemma indexed_forget [simp]: "speaking_indexed (forget_session sid w) = speaking_indexed w"
  by (simp add: speaking_indexed_def)

lemma indexed_put_room:
  "speaking_indexed w \<Longrightarrow> room_ok r \<Longrightarrow> speaking_indexed (put_room k r w)"
  using set_update_subset [of k r "rooms w"]
  by (auto simp: speaking_indexed_def put_room_def)

lemma indexed_drop_room:
  "speaking_indexed w \<Longrightarrow> speaking_indexed (w'\<lparr> rooms := AList.delete k (rooms w) \<rparr>)"
  using set_delete_subset [of k "rooms w"]
  by (auto simp: speaking_indexed_def)

lemma indexed_room:
  "speaking_indexed w \<Longrightarrow> map_of (rooms w) k = Some room \<Longrightarrow> room_ok room"
  by (auto simp: speaking_indexed_def dest: map_of_SomeD)

lemma room_ok_forget:
  "room_ok room \<Longrightarrow>
   room_ok (room\<lparr> r_producers := AList.delete k (r_producers room),
                  r_speaking := removeAll k (r_speaking room) \<rparr>)"
  by (auto simp: room_ok_def keys_delete)

lemma room_ok_forget_silent:
  "room_ok room \<Longrightarrow> k \<notin> set (r_speaking room) \<Longrightarrow>
   room_ok (room\<lparr> r_producers := AList.delete k (r_producers room) \<rparr>)"
  by (auto simp: room_ok_def keys_delete)

lemma room_ok_resetPeerMedia_loop:
  "room_ok room \<Longrightarrow> room_ok (fst (resetPeerMedia_loop w pid entries room))"
proof (induction entries arbitrary: room)
  case Nil
  then show ?case by simp
next
  case (Cons e entries)
  obtain k info where e: "e = (k, info)" by (cases e) auto
  show ?case
    using Cons.prems
    by (simp add: e Let_def case_prod_beta Cons.IH room_ok_forget room_ok_forget_silent)
qed

lemma room_ok_destroyPeer_loop:
  "room_ok room \<Longrightarrow> room_ok (fst (destroyPeer_loop w pid entries room))"
proof (induction entries arbitrary: room)
  case Nil
  then show ?case by simp
next
  case (Cons e entries)
  obtain k info where e: "e = (k, info)" by (cases e) auto
  show ?case
    using Cons.prems
    by (simp add: e Let_def case_prod_beta Cons.IH room_ok_forget room_ok_forget_silent)
qed

lemma room_ok_peers [simp]: "room_ok (room\<lparr> r_peers := ps \<rparr>) = room_ok room"
  by (simp add: room_ok_def)

lemma indexed_resetPeerMedia:
  "speaking_indexed w \<Longrightarrow> speaking_indexed (fst (resetPeerMedia w a))"
  by (auto simp: resetPeerMedia_def Let_def case_prod_beta indexed_put_room
      room_ok_resetPeerMedia_loop indexed_room split: option.splits)

lemma indexed_destroyPeer:
  "speaking_indexed w \<Longrightarrow> speaking_indexed (fst (destroyPeer w a))"
  by (auto simp: destroyPeer_def Let_def case_prod_beta indexed_put_room
      room_ok_destroyPeer_loop indexed_room split: option.splits intro!: indexed_drop_room)


lemma indexed_sessions [simp]: "speaking_indexed (w\<lparr> sessions := ss \<rparr>) = speaking_indexed w"
  by (simp add: speaking_indexed_def)

lemma indexed_adopt:
  assumes "speaking_indexed w"
  shows "speaking_indexed (fst (snd (adopt w c sid pid)))"
proof (cases "find_session w sid")
  case None
  with assms show ?thesis by (simp add: adopt_def Let_def)
next
  case (Some found)
  obtain a peer where found: "found = (a, peer)" by (cases found) auto
  let ?w1 = "store a (peer\<lparr> c_cleanupTimer := False, c_disconnectedAt := None \<rparr>) w"
  have "speaking_indexed (fst (resetPeerMedia ?w1 a))"
    using assms by (intro indexed_resetPeerMedia) simp
  with assms Some found show ?thesis
    by (simp add: adopt_def Let_def case_prod_beta split: option.splits)
qed

lemma room_ok_new [simp]: "room_ok (new_room k)"
  by (simp add: room_ok_def new_room_def)

lemma indexed_enter_room:
  assumes "speaking_indexed w"
  shows "speaking_indexed (fst (snd (enter_room w a peer k er)))"
    and "\<And>room w2 acts. enter_room w a peer k er = (Inr room, w2, acts) \<Longrightarrow> room_ok room"
  using assms
  by (auto simp: enter_room_def getRoom_def Let_def indexed_put_room indexed_room
      split: option.splits sum.splits)

lemma adopt_indexedD:
  "adopt w c sid pid = (r, w1, a1) \<Longrightarrow> speaking_indexed w \<Longrightarrow> speaking_indexed w1"
  using indexed_adopt [of w c sid pid] by simp

lemma enter_room_indexedD:
  "enter_room w a peer k er = (r, w2, a2) \<Longrightarrow> speaking_indexed w \<Longrightarrow> speaking_indexed w2"
  using indexed_enter_room(1) [of w a peer k er] by simp

lemma indexed_join: "speaking_indexed w \<Longrightarrow> speaking_indexed (fst (snd (join w c req er)))"
  unfolding join_def Let_def
  by (auto split: sum.splits prod.splits option.splits dest: adopt_indexedD enter_room_indexedD)

lemma indexed_resumeSession:
  "speaking_indexed w \<Longrightarrow> speaking_indexed (fst (snd (resumeSession w c req er)))"
  unfolding resumeSession_def Let_def
  by (auto split: sum.splits prod.splits option.splits if_splits
      dest: adopt_indexedD enter_room_indexedD)

lemma indexed_listProducers: "fst (snd (listProducers w c req)) = w"
  by (simp add: listProducers_def Let_def split: sum.splits option.splits)

lemma room_ok_register:
  "room_ok room \<Longrightarrow> room_ok (room\<lparr> r_producers := AList.update k v (r_producers room) \<rparr>)"
  by (auto simp: room_ok_def AList.dom_update)

lemma indexed_produce:
  "speaking_indexed w \<Longrightarrow> speaking_indexed (fst (snd (produce w c req er a peer)))"
  by (auto simp: produce_def Let_def indexed_put_room room_ok_register
      dest: indexed_room [rotated] split: sum.splits option.splits)

lemma indexed_located:
  assumes "speaking_indexed w"
  shows "speaking_indexed (fst (snd (located w c req er)))"
proof -
  have other:
    "speaking_indexed (fst (snd (createTransport w c req er a peer)))"
    "speaking_indexed (fst (snd (connectTransport w c req er a peer)))"
    "speaking_indexed (fst (snd (pauseProducer w c req er a peer)))"
    "speaking_indexed (fst (snd (resumeProducer w c req er a peer)))"
    "speaking_indexed (fst (snd (consume w c req er a peer)))"
    "speaking_indexed (fst (snd (pauseConsumer w c req er a peer)))"
    "speaking_indexed (fst (snd (resumeConsumer w c req er a peer)))" for a peer
    using assms
    by (simp_all add: createTransport_def connectTransport_def pauseProducer_def
        resumeProducer_def consume_def pauseConsumer_def resumeConsumer_def Let_def
        split: sum.splits option.splits)
  show ?thesis
    unfolding located_def Let_def
    using assms other indexed_produce [OF assms]
    by (auto split: option.splits sum.splits)
qed

lemma indexed_on_message:
  "speaking_indexed w \<Longrightarrow> speaking_indexed (fst (on_message w c req er))"
  using indexed_join [of w c req er] indexed_resumeSession [of w c req er]
    indexed_listProducers [of w c req] indexed_located [of w c req er]
  by (auto simp: on_message_def handle_def split: prod.splits sum.splits)


lemma set_fold_set_add: "set (fold set_add xs ys) = set xs \<union> set ys"
  by (induction xs arbitrary: ys) (auto simp: set_add_def)

lemma volumes_quiet_room:
  "r_producers (fst (volumes_quiet w active pids room)) = r_producers room \<and>
   set (r_speaking (fst (volumes_quiet w active pids room))) \<subseteq> set (r_speaking room)"
proof (induction pids arbitrary: room)
  case Nil
  then show ?case by simp
next
  case (Cons p pids)
  let ?room1 = "room\<lparr> r_speaking := removeAll p (r_speaking room) \<rparr>"
  from Cons [of ?room1] Cons [of room] show ?case
    by (auto simp: Let_def case_prod_beta)
qed

lemma silence_loop_room:
  "r_producers (fst (silence_loop w pids room)) = r_producers room \<and>
   set (r_speaking (fst (silence_loop w pids room))) \<subseteq> set (r_speaking room)"
proof (induction pids arbitrary: room)
  case Nil
  then show ?case by simp
next
  case (Cons p pids)
  let ?room1 = "room\<lparr> r_speaking := removeAll p (r_speaking room) \<rparr>"
  from Cons [of ?room1] show ?case
    by (auto simp: Let_def case_prod_beta)
qed

text \<open>
  A \<open>volumes\<close> tick keeps the speaking set within the index when the producers it
  reports are in the index of the room.
\<close>

lemma indexed_on_volumes:
  assumes "speaking_indexed w"
    and "\<And>room. map_of (rooms w) k = Some room \<Longrightarrow> fst ` set vols \<subseteq> fst ` set (r_producers room)"
  shows "speaking_indexed (fst (on_volumes w k vols))"
proof (cases "map_of (rooms w) k")
  case None
  with assms(1) show ?thesis by (simp add: on_volumes_def)
next
  case (Some room)
  let ?active = "fold set_add (map fst vols) []"
  let ?room1 = "fst (volumes_quiet w ?active (r_speaking room) room)"
  have ok: "room_ok room" using assms(1) Some by (rule indexed_room)
  have "room_ok (?room1\<lparr> r_speaking := fold set_add ?active (r_speaking ?room1) \<rparr>)"
    using ok assms(2) [OF Some] volumes_quiet_room [of w ?active "r_speaking room" room]
    by (auto simp: room_ok_def set_fold_set_add)
  with assms(1) Some show ?thesis
    by (simp add: on_volumes_def Let_def case_prod_beta indexed_put_room)
qed

lemma indexed_on_silence:
  assumes "speaking_indexed w"
  shows "speaking_indexed (fst (on_silence w k))"
proof (cases "map_of (rooms w) k")
  case None
  with assms show ?thesis by (simp add: on_silence_def)
next
  case (Some room)
  have ok: "room_ok room" using assms Some by (rule indexed_room)
  have "room_ok (fst (silence_loop w (r_speaking room) room))"
    using ok silence_loop_room [of w "r_speaking room" room] by (auto simp: room_ok_def)
  with assms Some show ?thesis
    by (simp add: on_silence_def Let_def case_prod_beta indexed_put_room)
qed

lemma indexed_on_close: "speaking_indexed w \<Longrightarrow> speaking_indexed (on_close w ws clock)"
  by (simp add: on_close_def scheduleGraceCleanup_def split: list.splits prod.splits option.splits)

lemma indexed_on_grace_expired:
  "speaking_indexed w \<Longrightarrow> speaking_indexed (fst (on_grace_expired w a))"
  by (simp add: on_grace_expired_def indexed_destroyPeer split: option.splits)

lemma indexed_engine_events:
  assumes "speaking_indexed w"
  shows "speaking_indexed (fst (on_producer_transportclose w a pid))"
    and "speaking_indexed (fst (on_consumer_transportclose w a cid))"
    and "speaking_indexed (fst (on_consumer_producerclose w a cid))"
  using assms
  by (simp_all add: on_producer_transportclose_def on_consumer_transportclose_def
      on_consumer_producerclose_def split: option.splits)


text \<open>
  No handler of the gated server attaches a producer to a level observer.
\<close>

lemma gated_server_never_attaches: "filter attaches (snd (on_message w c req er)) = []"
proof -
  obtain r w1 acts where h: "handle w c req er = (r, w1, acts)"
    by (cases "handle w c req er") auto
  have "tidy c req (r, w1, acts)"
    using tidy_handle [of c req w er] by (simp add: h)
  then have "list_all (\<lambda>a. \<not> attaches a) acts"
    by (simp add: tidy_def list_all_iff)
  then have "filter attaches acts = []" by (induction acts) auto
  then show ?thesis
    by (cases r) (simp_all add: on_message_def h)
qed

lemma reported_in_index:
  assumes "list_all (\<lambda>(p, v). map_of (r_producers room) p \<noteq> None) vols"
  shows "fst ` set vols \<subseteq> fst ` set (r_producers room)"
proof
  fix p assume "p \<in> fst ` set vols"
  then obtain v where "(p, v) \<in> set vols" by auto
  with assms have "map_of (r_producers room) p \<noteq> None" by (auto simp: list_all_iff)
  then show "p \<in> fst ` set (r_producers room)" by (simp add: map_of_eq_None_iff)
qed

lemma reachable_invariant: "reachable w \<Longrightarrow> speaking_indexed w"
proof (induction rule: reachable.induct)
  case start
  show ?case by (simp add: speaking_indexed_def empty_world_def)
next
  case (message w c req er)
  then show ?case by (simp add: indexed_on_message)
next
  case (socket_closed w ws clock)
  then show ?case by (simp add: indexed_on_close)
next
  case (grace_expired w a)
  then show ?case by (simp add: indexed_on_grace_expired)
next
  case (volumes w k room vols)
  show ?case
  proof (rule indexed_on_volumes [OF volumes.IH])
    fix room' assume "map_of (rooms w) k = Some room'"
    with volumes.hyps(2) have "room' = room" by simp
    with reported_in_index [OF volumes.hyps(3)]
    show "fst ` set vols \<subseteq> fst ` set (r_producers room')" by simp
  qed
next
  case (silence w k)
  then show ?case by (simp add: indexed_on_silence)
next
  case (producer_transportclose w a pid)
  then show ?case by (simp add: indexed_engine_events)
next
  case (consumer_transportclose w a cid)
  then show ?case by (simp add: indexed_engine_events)
next
  case (consumer_producerclose w a cid)
  then show ?case by (simp add: indexed_engine_events)
qed

text \<open>
  Claim C2. In every state the gated server can reach by the messages of its sockets,
  the closing of sockets, the expiry of grace timers, the \<open>volumes\<close> and \<open>silence\<close>
  ticks of the level observers and the close events of the engine, the speaking set of
  every room is a subset of the keys of the room's producer index. A tick puts the
  producers it reports into the speaking set, and the observer reports producers of the
  room's index; the handlers that delete an entry of the index (\<open>destroyPeer\<close>,
  \<open>resetPeerMedia\<close>) delete its id from the speaking set as well.
\<close>

theorem speaking_within_index:
  assumes "reachable w" and "(k, room) \<in> set (rooms w)"
  shows "set (r_speaking room) \<subseteq> fst ` set (r_producers room)"
  using reachable_invariant [OF assms(1)] assms(2)
  by (auto simp: speaking_indexed_def room_ok_def)

text \<open>
  The \<open>volumes\<close> handler itself does not look a reported producer up before it adds it
  to the speaking set: the invariant rests on what the observer reports. Given a report
  of a producer that is not in the index, the handler leaves it in the speaking set.
\<close>

lemma volumes_trusts_the_observer:
  "map_option (\<lambda>room. (r_speaking room, r_producers room))
     (map_of (rooms (fst (on_volumes joined ''r1'' [(''ghost'', - 50)]))) ''r1'') =
   Some ([''ghost''], [])"
  by (simp add: joined_eq on_volumes_def put_room_def set_add_def Let_def)

lemma reachable_producing: "reachable producing"
  unfolding producing_def sending_def joined_def
  by (intro reachable.message reachable.start)

text \<open>
  The state in which the producer's transport has closed (claim C3) is reachable.
\<close>

lemma stale_index_entry_is_reachable:
  "reachable (fst (on_producer_transportclose producing 1 ''P1''))"
  by (rule reachable.producer_transportclose [OF reachable_producing])

lemma talking_eq:
  "talking =
     \<lparr> heap =
         [(1, \<lparr> c_sessionId = ''s1'', c_peerId = ''p1'', c_ws = 1, c_roomId = Some ''r1'',
                c_send = Some ''T1'', c_recv = None,
                c_producers = [(''P1'', \<lparr> producer_id = ''P1'', producer_kind = audio \<rparr>)],
                c_consumers = [], c_cleanupTimer = False, c_disconnectedAt = None \<rparr>),
          (2, \<lparr> c_sessionId = ''s2'', c_peerId = ''p2'', c_ws = 2, c_roomId = Some ''r1'',
                c_send = None, c_recv = None, c_producers = [], c_consumers = [],
                c_cleanupTimer = False, c_disconnectedAt = None \<rparr>)],
       sessions = [(''s1'', 1), (''s2'', 2)],
       rooms = [(''r1'', \<lparr> r_id = ''r1'', r_peers = [(''p1'', 1), (''p2'', 2)],
                  r_producers = [(''P1'', \<lparr> rp_peerId = ''p1'',
                     rp_producer = \<lparr> producer_id = ''P1'', producer_kind = audio \<rparr> \<rparr>)],
                  r_speaking = [''P1''] \<rparr>)] \<rparr>"
  by (simp add: talking_def producing_eq on_volumes_def put_room_def set_add_def Let_def)

lemma reachable_talking: "reachable talking"
  unfolding talking_def
  by (rule reachable.volumes [OF reachable_producing, of "''r1''"
        "\<lparr> r_id = ''r1'', r_peers = [(''p1'', 1), (''p2'', 2)],
           r_producers = [(''P1'', \<lparr> rp_peerId = ''p1'',
              rp_producer = \<lparr> producer_id = ''P1'', producer_kind = audio \<rparr> \<rparr>)],
           r_speaking = [] \<rparr>"])
     (simp_all add: producing_eq)

lemma departed_rooms:
  "rooms departed =
     [(''r1'', \<lparr> r_id = ''r1'', r_peers = [(''p2'', 2)], r_producers = [], r_speaking = [] \<rparr>)]"
  by (simp add: departed_def talking_eq on_close_def scheduleGraceCleanup_def
      on_grace_expired_def destroyPeer_def forget_session_def close_media_def
      helper_defs Let_def)

lemma reachable_departed: "reachable departed"
  unfolding departed_def
  by (intro reachable.grace_expired reachable.socket_closed reachable_talking)

theorem speaking_within_index_witness:
  "reachable talking \<and>
   rooms talking =
     [(''r1'', \<lparr> r_id = ''r1'', r_peers = [(''p1'', 1), (''p2'', 2)],
                r_producers = [(''P1'', \<lparr> rp_peerId = ''p1'',
                   rp_producer = \<lparr> producer_id = ''P1'', producer_kind = audio \<rparr> \<rparr>)],
                r_speaking = [''P1''] \<rparr>)] \<and>
   set [''P1''] \<subseteq> fst ` set [(''P1'', \<lparr> rp_peerId = ''p1'',
                   rp_producer = \<lparr> producer_id = ''P1'', producer_kind = audio \<rparr> \<rparr>)] \<and>
   reachable departed \<and>
   rooms departed =
     [(''r1'', \<lparr> r_id = ''r1'', r_peers = [(''p2'', 2)], r_producers = [], r_speaking = [] \<rparr>)] \<and>
   set (r_speaking \<lparr> r_id = ''r1'', r_peers = [(''p2'', 2)], r_producers = [],
                      r_speaking = [] \<rparr>) \<subseteq> {}"
proof -
  have rooms: "rooms talking =
     [(''r1'', \<lparr> r_id = ''r1'', r_peers = [(''p1'', 1), (''p2'', 2)],
                r_producers = [(''P1'', \<lparr> rp_peerId = ''p1'',
                   rp_producer = \<lparr> producer_id = ''P1'', producer_kind = audio \<rparr> \<rparr>)],
                r_speaking = [''P1''] \<rparr>)]"
    by (simp add: talking_eq)
  from speaking_within_index [OF reachable_talking, of "''r1''"]
    speaking_within_index [OF reachable_departed, of "''r1''"]
    rooms departed_rooms reachable_talking reachable_departed
  show ?thesis by simp
qed

end
